theory Spec2Isabelle
  imports Complex_Main
begin

section \<open>Python text\<close>

text \<open>
  A Python \<open>str\<close> is a sequence of Unicode code points. It is modelled as a list of
  natural numbers (the code points), so that \<open>len\<close>, \<open>replace\<close>, \<open>split\<close> and
  \<open>strip\<close> count and compare what Python counts and compares. A literal of the source
  is written \<open>ustr ''...''\<close> when it is ASCII; the pound and euro signs are given by
  their code points.
\<close>

type_synonym ustr = "nat list"

definition ustr :: "string \<Rightarrow> ustr" where
  "ustr s = map of_char s"

definition POUND :: nat where "POUND = 163"
definition EURO :: nat where "EURO = 8364"
definition NEWLINE :: nat where "NEWLINE = 10"

text \<open>
  \<open>str.strip()\<close> with no argument removes the characters for which \<open>str.isspace\<close> holds:
  U+0009..U+000D, U+001C..U+0020, U+0085, U+00A0, U+1680, U+2000..U+200A, U+2028, U+2029,
  U+202F, U+205F and U+3000.
\<close>

definition py_isspace :: "nat \<Rightarrow> bool" where
  "py_isspace c =
     ((9 \<le> c \<and> c \<le> 13) \<or> (28 \<le> c \<and> c \<le> 32) \<or> c = 133 \<or> c = 160 \<or> c = 5760
      \<or> (8192 \<le> c \<and> c \<le> 8202) \<or> c = 8232 \<or> c = 8233 \<or> c = 8239 \<or> c = 8287
      \<or> c = 12288)"

definition lstrip_by :: "(nat \<Rightarrow> bool) \<Rightarrow> ustr \<Rightarrow> ustr" where
  "lstrip_by p s = dropWhile p s"

definition rstrip_by :: "(nat \<Rightarrow> bool) \<Rightarrow> ustr \<Rightarrow> ustr" where
  "rstrip_by p s = rev (dropWhile p (rev s))"

definition strip :: "ustr \<Rightarrow> ustr" where
  "strip s = rstrip_by py_isspace (lstrip_by py_isspace s)"

text \<open>\<open>s.strip(chars)\<close> and \<open>s.rstrip(chars)\<close> remove the characters of \<open>chars\<close>.\<close>

definition strip_chars :: "ustr \<Rightarrow> ustr \<Rightarrow> ustr" where
  "strip_chars chars s = rstrip_by (\<lambda>c. c \<in> set chars) (lstrip_by (\<lambda>c. c \<in> set chars) s)"

definition rstrip_chars :: "ustr \<Rightarrow> ustr \<Rightarrow> ustr" where
  "rstrip_chars chars s = rstrip_by (\<lambda>c. c \<in> set chars) s"

definition startswith :: "ustr \<Rightarrow> ustr \<Rightarrow> bool" where
  "startswith s p = (take (length p) s = p)"

text \<open>\<open>sub in s\<close>: the substring test.\<close>

fun contains :: "ustr \<Rightarrow> ustr \<Rightarrow> bool" where
  "contains [] sub = (sub = [])"
| "contains (c # s) sub = (startswith (c # s) sub \<or> contains s sub)"

text \<open>
  \<open>s.replace(old, new)\<close> replaces every occurrence of \<open>old\<close>, scanning from the left
  and continuing after each replaced occurrence. With an empty \<open>old\<close> Python puts \<open>new\<close>
  before every character and at the end.
\<close>

function replace :: "ustr \<Rightarrow> ustr \<Rightarrow> ustr \<Rightarrow> ustr" where
  "replace s old new =
     (if old = [] then concat (map (\<lambda>c. new @ [c]) s) @ new
      else if s = [] then []
      else if startswith s old then new @ replace (drop (length old) s) old new
      else hd s # replace (tl s) old new)"
  by pat_completeness auto
termination
  by (relation "measure (\<lambda>(s, old, new). length s)") auto

declare replace.simps [simp del]

text \<open>
  \<open>s.split(sep)\<close> for a non-empty separator: the pieces between the occurrences of
  \<open>sep\<close>, found from the left; there is always at least one piece. (Python raises
  ValueError for an empty separator; every separator of the source is a non-empty literal,
  and the model returns the whole string as the only piece then.)
\<close>

function split_from :: "ustr \<Rightarrow> ustr \<Rightarrow> ustr \<Rightarrow> ustr list" where
  "split_from cur s sep =
     (if s = [] \<or> sep = [] then [cur @ s]
      else if startswith s sep then cur # split_from [] (drop (length sep) s) sep
      else split_from (cur @ [hd s]) (tl s) sep)"
  by pat_completeness auto
termination
  by (relation "measure (\<lambda>(cur, s, sep). length s)") auto

declare split_from.simps [simp del]

definition split :: "ustr \<Rightarrow> ustr \<Rightarrow> ustr list" where
  "split s sep = split_from [] s sep"

section \<open>The interpreter's tables and number parsing\<close>

text \<open>
  \<open>str.isdigit\<close>, \<open>str.lower\<close>, \<open>int\<close> and \<open>float\<close> read the Unicode character
  database of the interpreter. For ASCII their behaviour is fixed and written out below;
  for the characters outside ASCII the tables are a parameter of the model, so that every
  general theorem holds whatever the database of the Python version at hand says:
  \<^item> \<open>decimal_nonascii c\<close>: the value of \<open>c\<close> when it is a decimal digit (category Nd);
  \<^item> \<open>isdigit_nonascii c\<close>: whether \<open>str.isdigit\<close> holds of the character \<open>c\<close>
    (decimal digits, and digits such as superscripts that \<open>int\<close> refuses);
  \<^item> \<open>lower_nonascii s\<close>: \<open>s.lower()\<close> for a string with a character outside ASCII;
  \<^item> \<open>int_max_str_digits\<close>: the length above which \<open>int\<close> refuses a decimal string
    with ValueError (4300 by default since Python 3.11, no limit before).
\<close>

record runtime =
  decimal_nonascii :: "nat \<Rightarrow> nat option"
  isdigit_nonascii :: "nat \<Rightarrow> bool"
  lower_nonascii :: "ustr \<Rightarrow> ustr"
  int_max_str_digits :: "nat option"

definition is_ascii_digit :: "nat \<Rightarrow> bool" where
  "is_ascii_digit c = (48 \<le> c \<and> c \<le> 57)"

definition decimal_of :: "runtime \<Rightarrow> nat \<Rightarrow> nat option" where
  "decimal_of rt c =
     (if is_ascii_digit c then Some (c - 48)
      else if c < 128 then None
      else decimal_nonascii rt c)"

definition isdigit_char :: "runtime \<Rightarrow> nat \<Rightarrow> bool" where
  "isdigit_char rt c =
     (if is_ascii_digit c then True else if c < 128 then False else isdigit_nonascii rt c)"

text \<open>\<open>s.isdigit()\<close>: the string is not empty and all its characters are digits.\<close>

definition isdigit :: "runtime \<Rightarrow> ustr \<Rightarrow> bool" where
  "isdigit rt s = (s \<noteq> [] \<and> list_all (isdigit_char rt) s)"

definition ascii_lower :: "nat \<Rightarrow> nat" where
  "ascii_lower c = (if 65 \<le> c \<and> c \<le> 90 then c + 32 else c)"

definition lower :: "runtime \<Rightarrow> ustr \<Rightarrow> ustr" where
  "lower rt s = (if list_all (\<lambda>c. c < 128) s then map ascii_lower s else lower_nonascii rt s)"

definition decimal_number :: "nat list \<Rightarrow> nat" where
  "decimal_number ds = foldl (\<lambda>a d. 10 * a + d) 0 ds"

text \<open>
  \<open>int(s)\<close> for a string \<open>s\<close> made of \<open>str.isdigit\<close> characters only (the source calls
  \<open>int\<close> on nothing else): \<open>None\<close> is the ValueError, raised for the empty string, for a
  digit that is not a decimal digit, and for a string above the length limit.
\<close>

fun decimals :: "runtime \<Rightarrow> ustr \<Rightarrow> nat list option" where
  "decimals rt [] = Some []"
| "decimals rt (c # s) =
     (case decimal_of rt c of
        None \<Rightarrow> None
      | Some d \<Rightarrow> (case decimals rt s of None \<Rightarrow> None | Some ds \<Rightarrow> Some (d # ds)))"

definition py_int :: "runtime \<Rightarrow> ustr \<Rightarrow> nat option" where
  "py_int rt s =
     (if s = [] then None
      else case decimals rt s of
        None \<Rightarrow> None
      | Some ds \<Rightarrow>
          (case int_max_str_digits rt of
             None \<Rightarrow> Some (decimal_number ds)
           | Some m \<Rightarrow> if m < length s then None else Some (decimal_number ds)))"

text \<open>\<open>int(''.join(filter(str.isdigit, text)))\<close>, the digit extraction of the extractor.\<close>

definition digits_int :: "runtime \<Rightarrow> ustr \<Rightarrow> nat option" where
  "digits_int rt s = py_int rt (filter (isdigit_char rt) s)"

text \<open>
  \<open>float(s)\<close>. CPython first maps the string to ASCII (a character from U+007F on becomes
  a blank when it is a space, its digit when it is a decimal digit, and \<open>?\<close> otherwise),
  checks that every underscore stands between two digits and removes it, strips the
  blanks \<open>\t \n \v \f \r\<close> and the space from both ends, and then reads
  \<open>[sign] digits [. [digits]] [exponent]\<close>, \<open>[sign] . digits [exponent]\<close>,
  or \<open>[sign] inf | infinity | nan\<close> in any case; the whole string must be consumed.
  The result is the binary64 number nearest to the decimal literal, the one with the even
  significand when two are equally near, a zero when the literal is below half the
  smallest binary64 number, and an infinity when it rounds beyond the largest one.
\<close>

datatype pyfloat = Finite real | NegativeZero | Infinity bool | NotANumber

text \<open>\<open>n.bit_length()\<close>, and the integer \<open>e\<close> with \<open>2 ^ e \<le> p / q < 2 ^ (e + 1)\<close>.\<close>

function bit_length :: "nat \<Rightarrow> nat" where
  "bit_length n = (if n = 0 then 0 else Suc (bit_length (n div 2)))"
  by pat_completeness auto
termination
  by (relation "measure (\<lambda>n. n)") auto

declare bit_length.simps [simp del]

definition floor_log2 :: "nat \<Rightarrow> nat \<Rightarrow> int" where
  "floor_log2 p q =
     (let d = int (bit_length p) - int (bit_length q)
      in if q * 2 ^ nat d \<le> p * 2 ^ nat (- d) then d else d - 1)"

text \<open>The integer nearest to \<open>p / q\<close>, the even one of two.\<close>

definition round_half_even :: "nat \<Rightarrow> nat \<Rightarrow> nat" where
  "round_half_even p q =
     (let n = p div q; r = p mod q
      in if 2 * r < q then n else if q < 2 * r then n + 1 else if even n then n else n + 1)"

text \<open>
  The binary64 number for the rational \<open>p / q\<close> with the sign \<open>neg\<close>: a significand of at
  most 53 bits times \<open>2 ^ e\<close>, where \<open>e\<close> is at least \<open>- 1074\<close>; the result is infinite from
  \<open>2 ^ 1024\<close> on.
\<close>

definition binary64 :: "bool \<Rightarrow> nat \<Rightarrow> nat \<Rightarrow> pyfloat" where
  "binary64 neg p q =
     (if p = 0 then (if neg then NegativeZero else Finite 0)
      else
        (let e = max (floor_log2 p q - 52) (- 1074);
             n = round_half_even (p * 2 ^ nat (- e)) (q * 2 ^ nat e)
         in if n = 0 then (if neg then NegativeZero else Finite 0)
            else if 2 ^ 1024 \<le> n * 2 ^ nat e then Infinity neg
            else Finite ((if neg then - 1 else 1) * real n * 2 ^ nat e / 2 ^ nat (- e))))"

definition to_ascii :: "runtime \<Rightarrow> nat \<Rightarrow> nat" where
  "to_ascii rt c =
     (if c < 127 then c
      else if py_isspace c then 32
      else case decimal_of rt c of None \<Rightarrow> 63 | Some d \<Rightarrow> 48 + d)"

fun underscores_ok :: "nat \<Rightarrow> ustr \<Rightarrow> bool" where
  "underscores_ok prev [] = (prev \<noteq> 95)"
| "underscores_ok prev (c # s) =
     ((if c = 95 then is_ascii_digit prev
       else if prev = 95 then is_ascii_digit c
       else True)
      \<and> underscores_ok c s)"

definition c_isspace :: "nat \<Rightarrow> bool" where
  "c_isspace c = ((9 \<le> c \<and> c \<le> 13) \<or> c = 32)"

definition parse_sign :: "ustr \<Rightarrow> bool \<times> ustr" where
  "parse_sign s =
     (case s of
        [] \<Rightarrow> (False, [])
      | c # r \<Rightarrow> if c = 45 then (True, r) else if c = 43 then (False, r) else (False, s))"

definition take_digits :: "ustr \<Rightarrow> nat list \<times> ustr" where
  "take_digits s = (map (\<lambda>c. c - 48) (takeWhile is_ascii_digit s), dropWhile is_ascii_digit s)"

definition parse_exponent :: "ustr \<Rightarrow> int \<times> ustr" where
  "parse_exponent s =
     (case s of
        [] \<Rightarrow> (0, s)
      | c # r \<Rightarrow>
          if c = 101 \<or> c = 69 then
            (let (neg, r1) = parse_sign r; (ds, r2) = take_digits r1
             in if ds = [] then (0, s)
                else (if neg then - int (decimal_number ds) else int (decimal_number ds), r2))
          else (0, s))"

text \<open>
  The decimal number at the front of the string, as its sign, a numerator and a
  denominator, and what follows it.
\<close>

definition strtod :: "ustr \<Rightarrow> ((bool \<times> nat \<times> nat) \<times> ustr) option" where
  "strtod s =
     (let (neg, r0) = parse_sign s;
          (ip, r1) = take_digits r0;
          (fp, r2) = (case r1 of [] \<Rightarrow> ([], r1)
                      | c # t \<Rightarrow> if c = 46 then take_digits t else ([], r1))
      in if ip = [] \<and> fp = [] then None
         else
           (let (ex, r3) = parse_exponent r2;
                m = decimal_number (ip @ fp);
                e = ex - int (length fp)
            in Some ((neg, m * 10 ^ nat e, 10 ^ nat (- e)), r3)))"

definition inf_or_nan :: "ustr \<Rightarrow> pyfloat option" where
  "inf_or_nan s =
     (let (neg, r) = parse_sign s; w = map ascii_lower r
      in if w = ustr ''inf'' \<or> w = ustr ''infinity'' then Some (Infinity neg)
         else if w = ustr ''nan'' then Some NotANumber
         else None)"

definition py_float :: "runtime \<Rightarrow> ustr \<Rightarrow> pyfloat option" where
  "py_float rt s =
     (let a = map (to_ascii rt) s
      in if \<not> underscores_ok 0 a then None
         else
           (let t = rstrip_by c_isspace (lstrip_by c_isspace (filter (\<lambda>c. c \<noteq> 95) a))
            in case strtod t of
                 Some ((neg, p, q), rest) \<Rightarrow>
                   if rest = [] then Some (binary64 neg p q) else None
               | None \<Rightarrow> inf_or_nan t))"

text \<open>
  A database without digits outside ASCII. It is used to evaluate the model on concrete
  texts whose characters outside ASCII (the pound and the euro sign) are neither digits
  nor letters, where it agrees with every Python version.
\<close>

definition ascii_runtime :: runtime where
  "ascii_runtime =
     \<lparr>decimal_nonascii = (\<lambda>c. None), isdigit_nonascii = (\<lambda>c. False),
      lower_nonascii = map ascii_lower, int_max_str_digits = Some 4300\<rparr>"

section \<open>The field extractor (hotel_scraper.py)\<close>

text \<open>
  \<open>extract_hotel_data\<close> reads one listing through the browser's element queries. The
  listing is modelled by what those queries return: \<open>None\<close> where \<open>query_selector\<close> finds
  no element, the \<open>inner_text()\<close> of the element otherwise, a list for
  \<open>query_selector_all\<close>. The queries themselves are taken to succeed; a failure of the
  browser is outside this model. The clicks on the expand controls change what the later
  queries return, so \<open>tab_height\<close> holds the panel as it is read after them. Logging has
  no effect on the result and is left out.
\<close>

record price_box =
  price_amount :: "ustr option"
  provider_src :: "ustr option"
  room_type_el :: "ustr option"
  cancellation_el :: "ustr option"

record info_div =
  spans :: "ustr list"
  surface_divs :: "ustr list"

record fragment =
  name_el :: "ustr option"
  location_el :: "ustr option"
  star_elements :: nat
  circle_rating :: "ustr option"
  rating_text_el :: "ustr option"
  main_price_box :: "price_box option"
  tab_height :: "info_div list option"

record price_rec =
  amount :: "pyfloat option"
  currency :: ustr
  provider :: ustr
  room_type :: ustr
  cancellation_policy :: ustr

record tennis_rec =
  total_courts :: nat
  lighted_courts :: nat
  court_surfaces :: "ustr list"
  surface_counts :: "(ustr \<times> nat) list"
  opening_hours :: ustr
  court_cost :: ustr
  lessons_available :: bool
  lessons_cost :: ustr
  equipment_rental :: bool
  equipment_cost :: ustr
  requirements :: "ustr list"
  tennis_camps :: bool
  tournaments :: bool
  tennis_shop :: bool
  additional_info :: "ustr list"

record hotel_data =
  name :: ustr
  location :: ustr
  country :: ustr
  source_country :: ustr
  star_rating :: nat
  rating_score :: "pyfloat option"
  rating_text :: ustr
  price :: price_rec
  tennis_facilities :: tennis_rec
  scrape_timestamp :: ustr
  page_number :: "nat option"

text \<open>
  The record the function starts from. \<open>src\<close> is \<open>self.european_countries[0]\<close> and \<open>now\<close>
  is \<open>datetime.now().isoformat()\<close>; \<open>page_number\<close> is the key the walker adds later.
\<close>

definition initial_hotel_data :: "ustr \<Rightarrow> ustr \<Rightarrow> hotel_data" where
  "initial_hotel_data src now =
     \<lparr>name = [], location = [], country = [], source_country = src, star_rating = 0,
      rating_score = None, rating_text = [],
      price = \<lparr>amount = None, currency = ustr ''USD'', provider = [], room_type = [],
               cancellation_policy = []\<rparr>,
      tennis_facilities =
        \<lparr>total_courts = 0, lighted_courts = 0, court_surfaces = [], surface_counts = [],
         opening_hours = [], court_cost = [], lessons_available = False, lessons_cost = [],
         equipment_rental = False, equipment_cost = [], requirements = [],
         tennis_camps = False, tournaments = False, tennis_shop = False,
         additional_info = []\<rparr>,
      scrape_timestamp = now, page_number = None\<rparr>"

subsection \<open>Location and country\<close>

definition prefixes_to_remove :: "ustr list" where
  "prefixes_to_remove =
     [ustr ''Hotel in'', ustr ''Resort in'', ustr ''Guest House in'',
      ustr ''Bed & Breakfast in'', ustr ''Country House in'', ustr ''Hostel in'',
      ustr ''Apartment in'', ustr ''Aparthotel in'', ustr ''Villa in'']"

text \<open>The loop over the prefixes, left at the first prefix the text starts with.\<close>

fun remove_prefix :: "ustr \<Rightarrow> ustr list \<Rightarrow> ustr" where
  "remove_prefix loc [] = loc"
| "remove_prefix loc (p # ps) =
     (if startswith loc p then strip (replace loc p []) else remove_prefix loc ps)"

definition first_piece :: "ustr list \<Rightarrow> ustr" where
  "first_piece ps = (case ps of [] \<Rightarrow> [] | x # _ \<Rightarrow> x)"

definition location_parts :: "ustr \<Rightarrow> ustr list" where
  "location_parts location_text =
     (let loc = remove_prefix location_text prefixes_to_remove;
          loc' = strip (first_piece (split loc (ustr ''Show on Map'')))
      in filter (\<lambda>part. part \<noteq> []) (map strip (split loc' [NEWLINE])))"

definition extract_location :: "ustr \<Rightarrow> hotel_data \<Rightarrow> hotel_data" where
  "extract_location raw h =
     (case location_parts (strip raw) of
        [] \<Rightarrow> h
      | p0 # rest \<Rightarrow>
          h\<lparr>location := rstrip_chars (ustr '','') p0,
            country := (case rest of [] \<Rightarrow> [] | p1 # _ \<Rightarrow> p1)\<rparr>)"

subsection \<open>Price\<close>

definition strip_currency :: "ustr \<Rightarrow> ustr" where
  "strip_currency t =
     replace (replace (replace (replace t [POUND] []) (ustr ''$'') []) [EURO] []) (ustr '','') []"

definition extract_price_amount :: "runtime \<Rightarrow> ustr \<Rightarrow> price_rec \<Rightarrow> price_rec" where
  "extract_price_amount rt raw p =
     (case py_float rt (strip_currency (strip raw)) of
        Some v \<Rightarrow> p\<lparr>amount := Some v, currency := ustr ''GBP''\<rparr>
      | None \<Rightarrow> p\<lparr>amount := None\<rparr>)"

definition last_piece :: "ustr list \<Rightarrow> ustr" where
  "last_piece ps = (case rev ps of [] \<Rightarrow> [] | x # _ \<Rightarrow> x)"

definition extract_price :: "runtime \<Rightarrow> price_box \<Rightarrow> price_rec \<Rightarrow> price_rec" where
  "extract_price rt box p =
     (let p1 = (case price_amount box of None \<Rightarrow> p | Some t \<Rightarrow> extract_price_amount rt t p);
          p2 = (case provider_src box of None \<Rightarrow> p1
                | Some src \<Rightarrow>
                    p1\<lparr>provider := replace (last_piece (split src (ustr ''/''))) (ustr ''.png'') []\<rparr>);
          p3 = (case room_type_el box of None \<Rightarrow> p2 | Some t \<Rightarrow> p2\<lparr>room_type := strip t\<rparr>)
      in case cancellation_el box of
           None \<Rightarrow> p3
         | Some t \<Rightarrow> p3\<lparr>cancellation_policy := strip t\<rparr>)"

subsection \<open>Tennis facilities\<close>

text \<open>\<open>d[k] = v\<close> on a dictionary kept in insertion order.\<close>

fun dict_set :: "('k \<times> 'v) list \<Rightarrow> 'k \<Rightarrow> 'v \<Rightarrow> ('k \<times> 'v) list" where
  "dict_set [] k v = [(k, v)]"
| "dict_set ((k', v') # d) k v = (if k' = k then (k, v) # d else (k', v') # dict_set d k v)"

definition surface_step :: "runtime \<Rightarrow> tennis_rec \<Rightarrow> ustr \<Rightarrow> tennis_rec" where
  "surface_step rt tf surface_div =
     (case split (strip surface_div) (ustr ''Number of courts:'') of
        [a, b] \<Rightarrow>
          (let surface_type = strip a
           in case digits_int rt b of
                None \<Rightarrow> tf
              | Some count \<Rightarrow>
                  tf\<lparr>court_surfaces :=
                       (if surface_type \<in> set (court_surfaces tf) then court_surfaces tf
                        else court_surfaces tf @ [surface_type]),
                     surface_counts := dict_set (surface_counts tf) surface_type count\<rparr>)
      | _ \<Rightarrow> tf)"

definition no_texts :: "ustr list" where
  "no_texts = [ustr ''no'', [957, 959], [1085, 1077, 1090]]"

definition lessons_step :: "runtime \<Rightarrow> tennis_rec \<Rightarrow> ustr \<Rightarrow> tennis_rec" where
  "lessons_step rt tf value_text =
     (let lv = lower rt value_text;
          tf1 = tf\<lparr>lessons_available := \<not> list_ex (contains lv) no_texts\<rparr>
      in if contains lv (ustr ''charge'') \<or> contains lv (ustr ''cost'') then
           (case split value_text (ustr '':'') of
              _ # c1 # _ \<Rightarrow> tf1\<lparr>lessons_cost := strip c1\<rparr>
            | _ \<Rightarrow> tf1)
         else tf1)"

text \<open>One label/value pair of the panel, routed by the first condition that holds.\<close>

definition info_step :: "runtime \<Rightarrow> tennis_rec \<Rightarrow> info_div \<Rightarrow> tennis_rec" where
  "info_step rt tf d =
     (case spans d of
        s0 # s1 # _ \<Rightarrow>
          (let label_text = strip s0; value_text = strip s1; ll = lower rt label_text
           in if contains ll (ustr ''number of all tennis courts'')
                 \<or> contains ll (ustr ''tennis courts total'') then
                (case digits_int rt value_text of
                   Some count \<Rightarrow> tf\<lparr>total_courts := count\<rparr> | None \<Rightarrow> tf)
              else if contains ll (ustr ''lighted'') \<and> contains ll (ustr ''court'') then
                (case digits_int rt value_text of
                   Some count \<Rightarrow> tf\<lparr>lighted_courts := count\<rparr> | None \<Rightarrow> tf)
              else if contains ll (ustr ''terrain'') \<or> contains ll (ustr ''surface'') then
                foldl (surface_step rt) tf (surface_divs d)
              else if contains ll (ustr ''opening hours'') then tf\<lparr>opening_hours := value_text\<rparr>
              else if contains ll (ustr ''cost'') \<and> contains ll (ustr ''court'') then
                tf\<lparr>court_cost := value_text\<rparr>
              else if contains ll (ustr ''tennis lessons'') then lessons_step rt tf value_text
              else tf)
      | _ \<Rightarrow> tf)"

definition extract_tennis :: "runtime \<Rightarrow> info_div list \<Rightarrow> tennis_rec \<Rightarrow> tennis_rec" where
  "extract_tennis rt divs tf = foldl (info_step rt) tf divs"

subsection \<open>The whole record\<close>

text \<open>
  The steps before and after the rating score cannot raise on any text. The rating score
  is converted by a bare \<open>float(...)\<close> (line 159): its ValueError reaches the handler of
  the whole function, which returns \<open>None\<close>.
\<close>

definition extract_head :: "ustr \<Rightarrow> ustr \<Rightarrow> fragment \<Rightarrow> hotel_data" where
  "extract_head src now frag =
     (let h0 = initial_hotel_data src now;
          h1 = (case name_el frag of None \<Rightarrow> h0 | Some t \<Rightarrow> h0\<lparr>name := strip t\<rparr>);
          h2 = (case location_el frag of None \<Rightarrow> h1 | Some t \<Rightarrow> extract_location t h1)
      in h2\<lparr>star_rating := star_elements frag\<rparr>)"

definition extract_tail :: "runtime \<Rightarrow> fragment \<Rightarrow> hotel_data \<Rightarrow> hotel_data" where
  "extract_tail rt frag h =
     (let h1 = (case rating_text_el frag of None \<Rightarrow> h | Some t \<Rightarrow> h\<lparr>rating_text := strip t\<rparr>);
          h2 = (case main_price_box frag of None \<Rightarrow> h1
                | Some box \<Rightarrow> h1\<lparr>price := extract_price rt box (price h1)\<rparr>)
      in case tab_height frag of
           None \<Rightarrow> h2
         | Some divs \<Rightarrow> h2\<lparr>tennis_facilities := extract_tennis rt divs (tennis_facilities h2)\<rparr>)"

definition extract_hotel_data :: "runtime \<Rightarrow> ustr \<Rightarrow> ustr \<Rightarrow> fragment \<Rightarrow> hotel_data option" where
  "extract_hotel_data rt src now frag =
     (let h = extract_head src now frag
      in case circle_rating frag of
           None \<Rightarrow> Some (extract_tail rt frag h)
         | Some t \<Rightarrow>
             (case py_float rt (strip t) of
                None \<Rightarrow> None
              | Some score \<Rightarrow> Some (extract_tail rt frag (h\<lparr>rating_score := Some score\<rparr>))))"

section \<open>The page walker and the checkpoint writer (hotel_scraper.py)\<close>

subsection \<open>Files and the log\<close>

text \<open>
  The working directory is a map from file names to contents. A file written by
  \<open>json.dump\<close> holds the list of records it was given; \<open>Truncated\<close> is what is left of a
  file that was opened for writing (which empties it) when the dump then failed. Whether
  a write succeeds is decided by the disk, a parameter: \<open>disk i\<close> is the outcome of the
  \<open>i\<close>-th attempt to open a file for writing.
\<close>

datatype content = Records "hotel_data list" | Html | Truncated

datatype write_result = WriteOk | OpenFails | DumpFails

datatype log_entry =
    CheckpointSaved nat
  | MainFileUpdated nat
  | ErrorSavingCheckpoint
  | DataSaved ustr
  | ErrorSavingData
  | ErrorDuringScraping
  | ErrorScrapingCountry ustr

datatype browser_event = Goto nat | ClickNext nat

record world =
  files :: "ustr \<Rightarrow> content option"
  logged :: "log_entry list"
  events :: "browser_event list"
  writes :: nat

definition log_add :: "log_entry \<Rightarrow> world \<Rightarrow> world" where
  "log_add e w = w\<lparr>logged := logged w @ [e]\<rparr>"

definition event_add :: "browser_event \<Rightarrow> world \<Rightarrow> world" where
  "event_add e w = w\<lparr>events := events w @ [e]\<rparr>"

text \<open>\<open>with open(name, 'w') as f: json.dump(...)\<close>: whether it succeeded, and the world after.\<close>

definition write_file :: "(nat \<Rightarrow> write_result) \<Rightarrow> ustr \<Rightarrow> content \<Rightarrow> world \<Rightarrow> bool \<times> world" where
  "write_file disk fname c w =
     (case disk (writes w) of
        WriteOk \<Rightarrow> (True, w\<lparr>files := (files w)(fname \<mapsto> c), writes := Suc (writes w)\<rparr>)
      | OpenFails \<Rightarrow> (False, w\<lparr>writes := Suc (writes w)\<rparr>)
      | DumpFails \<Rightarrow>
          (False, w\<lparr>files := (files w)(fname \<mapsto> Truncated), writes := Suc (writes w)\<rparr>))"

text \<open>\<open>str(n)\<close> of a natural number, for the page numbers in file names.\<close>

function str_nat :: "nat \<Rightarrow> ustr" where
  "str_nat n = (if n < 10 then [48 + n] else str_nat (n div 10) @ [48 + n mod 10])"
  by pat_completeness auto
termination
  by (relation "measure (\<lambda>n. n)") auto

declare str_nat.simps [simp del]

definition checkpoint_file :: "nat \<Rightarrow> ustr" where
  "checkpoint_file current_page =
     ustr ''tennis_hotels_checkpoint_page_'' @ str_nat current_page @ ustr ''.json''"

definition main_file :: ustr where
  "main_file = ustr ''tennis_hotels.json''"

definition save_checkpoint :: "(nat \<Rightarrow> write_result) \<Rightarrow> hotel_data list \<Rightarrow> nat \<Rightarrow> world \<Rightarrow> world" where
  "save_checkpoint disk data current_page w =
     (case write_file disk (checkpoint_file current_page) (Records data) w of
        (False, w1) \<Rightarrow> log_add ErrorSavingCheckpoint w1
      | (True, w1) \<Rightarrow>
          (case write_file disk main_file (Records data) (log_add (CheckpointSaved current_page) w1) of
             (False, w2) \<Rightarrow> log_add ErrorSavingCheckpoint w2
           | (True, w2) \<Rightarrow> log_add (MainFileUpdated (length data)) w2))"

definition save_to_json :: "(nat \<Rightarrow> write_result) \<Rightarrow> hotel_data list \<Rightarrow> ustr \<Rightarrow> world \<Rightarrow> world" where
  "save_to_json disk data filename w =
     (case write_file disk filename (Records data) w of
        (False, w1) \<Rightarrow> log_add ErrorSavingData w1
      | (True, w1) \<Rightarrow> log_add (DataSaved filename) w1)"

subsection \<open>The site as the browser shows it\<close>

text \<open>
  What the browser returns is a parameter of the walk: for the page with number \<open>n\<close>,
  whether \<open>page.goto\<close> returns a response or raises (\<open>base_goto_ok\<close> for the request
  of the start address that the country sweep makes before its loop), whether the
  listing container
  appears before the timeout, the listings of the page, and what happens on the attempt
  to move on from it; \<open>page_links\<close> are the \<open>title\<close> attributes of the pagination links
  of the first page, and \<open>clock n i\<close> is the time at which listing \<open>i\<close> of page \<open>n\<close> is read.
\<close>

datatype nav_result = NoButton | ClickFails | UrlMismatch | Navigated

record site =
  base_goto_ok :: bool
  goto_ok :: "nat \<Rightarrow> bool"
  page_links :: "ustr option list"
  hotels_load :: "nat \<Rightarrow> bool"
  hotel_elements :: "nat \<Rightarrow> fragment list"
  next_page :: "nat \<Rightarrow> nav_result"
  clock :: "nat \<Rightarrow> nat \<Rightarrow> ustr"

subsection \<open>get_total_pages\<close>

text \<open>
  The page numbers collected from the links; \<open>None\<close> when \<open>int(title)\<close> raises, which
  happens for a title that \<open>isdigit\<close> accepts and \<open>int\<close> refuses.
\<close>

fun page_numbers :: "runtime \<Rightarrow> ustr option list \<Rightarrow> nat list option" where
  "page_numbers rt [] = Some []"
| "page_numbers rt (title # links) =
     (case title of
        None \<Rightarrow> page_numbers rt links
      | Some t \<Rightarrow>
          if t \<noteq> [] \<and> isdigit rt t then
            (case py_int rt t of
               None \<Rightarrow> None
             | Some n \<Rightarrow> map_option (\<lambda>ns. n # ns) (page_numbers rt links))
          else page_numbers rt links)"

definition get_total_pages :: "runtime \<Rightarrow> ustr option list \<Rightarrow> nat" where
  "get_total_pages rt links =
     (if links = [] then 1
      else case page_numbers rt links of
             None \<Rightarrow> 1
           | Some ns \<Rightarrow> if ns = [] then 1 else fold max ns 0)"

subsection \<open>navigate_to_next_page\<close>

text \<open>
  The click on the control of page \<open>current_page + 1\<close> is the only request the function
  makes; it is made whenever the control is found.
\<close>

definition navigate_to_next_page :: "site \<Rightarrow> nat \<Rightarrow> world \<Rightarrow> bool \<times> world" where
  "navigate_to_next_page st current_page w =
     (case next_page st current_page of
        NoButton \<Rightarrow> (False, w)
      | ClickFails \<Rightarrow> (False, event_add (ClickNext (current_page + 1)) w)
      | UrlMismatch \<Rightarrow> (False, event_add (ClickNext (current_page + 1)) w)
      | Navigated \<Rightarrow> (True, event_add (ClickNext (current_page + 1)) w))"

subsection \<open>scrape_hotels\<close>

text \<open>The records of one page: the listings that \<open>extract_hotel_data\<close> returns a record for.\<close>

fun extract_page :: "runtime \<Rightarrow> ustr \<Rightarrow> (nat \<Rightarrow> ustr) \<Rightarrow> nat \<Rightarrow> nat \<Rightarrow> fragment list \<Rightarrow> hotel_data list" where
  "extract_page rt src now current_page i [] = []"
| "extract_page rt src now current_page i (el # els) =
     (case extract_hotel_data rt src (now i) el of
        None \<Rightarrow> extract_page rt src now current_page (Suc i) els
      | Some h \<Rightarrow>
          h\<lparr>page_number := Some current_page\<rparr>
            # extract_page rt src now current_page (Suc i) els)"

definition error_page_file :: ustr where
  "error_page_file = ustr ''error_page.html''"

record walker =
  all_hotels_data :: "hotel_data list"
  current_page :: nat
  total_pages :: nat
  wld :: world
  raised :: bool

text \<open>
  The local variables of \<open>scrape_hotels\<close> and the world are the state of the walk.
  \<open>raised\<close> is set when an exception leaves \<open>scrape_hotels\<close>, which then returns nothing.

  The handler around the loop saves the page content, then what was collected. A failure
  of that first write is not caught by anything.
\<close>

definition scraping_failed :: "(nat \<Rightarrow> write_result) \<Rightarrow> walker \<Rightarrow> walker" where
  "scraping_failed disk k =
     (case write_file disk error_page_file Html (log_add ErrorDuringScraping (wld k)) of
        (False, w1) \<Rightarrow> k\<lparr>wld := w1, raised := True\<rparr>
      | (True, w1) \<Rightarrow>
          k\<lparr>wld := (if all_hotels_data k \<noteq> []
                    then save_checkpoint disk (all_hotels_data k) (current_page k) w1
                    else w1)\<rparr>)"

text \<open>
  The \<open>while True\<close> loop, one call for each iteration. \<open>total_pages\<close> is assigned in the
  iteration of page 1, the first one; the value it has before is never read.
\<close>

function scrape_loop :: "runtime \<Rightarrow> site \<Rightarrow> (nat \<Rightarrow> write_result) \<Rightarrow> walker \<Rightarrow> walker" where
  "scrape_loop rt st disk k =
     (let cur = current_page k;
          w1 = event_add (Goto cur) (wld k)
      in if \<not> goto_ok st cur then scraping_failed disk (k\<lparr>wld := w1\<rparr>)
         else
           (let total = (if cur = 1 then get_total_pages rt (page_links st) else total_pages k)
            in if \<not> hotels_load st cur then k\<lparr>total_pages := total, wld := w1\<rparr>
               else
                 (let page_hotels_data =
                        extract_page rt (ustr ''World'') (clock st cur) cur 1 (hotel_elements st cur);
                      all' = all_hotels_data k @ page_hotels_data;
                      w2 = save_checkpoint disk all' cur w1
                  in if total \<le> cur
                     then k\<lparr>all_hotels_data := all', total_pages := total, wld := w2\<rparr>
                     else
                       (case navigate_to_next_page st cur w2 of
                          (True, w3) \<Rightarrow>
                            scrape_loop rt st disk
                              (k\<lparr>all_hotels_data := all', current_page := cur + 1,
                                 total_pages := total, wld := w3\<rparr>)
                        | (False, w3) \<Rightarrow>
                            k\<lparr>all_hotels_data := all', total_pages := total, wld := w3\<rparr>))))"
  by pat_completeness auto
termination
  by (relation "measure (\<lambda>(rt, st, disk, k).
        if current_page k = 0 then get_total_pages rt (page_links st) + 1
        else if current_page k = 1 then get_total_pages rt (page_links st) - 1
        else total_pages k - current_page k)")
     (auto split: if_splits)

declare scrape_loop.simps [simp del]

definition scrape_hotels :: "runtime \<Rightarrow> site \<Rightarrow> (nat \<Rightarrow> write_result) \<Rightarrow> world \<Rightarrow> walker" where
  "scrape_hotels rt st disk w =
     scrape_loop rt st disk
       \<lparr>all_hotels_data = [], current_page = 1, total_pages = 0, wld = w, raised = False\<rparr>"

subsection \<open>What a walk did\<close>

text \<open>The pages requested with \<open>page.goto\<close> and the pages asked for by a click, in order.\<close>

fun goto_pages :: "browser_event list \<Rightarrow> nat list" where
  "goto_pages [] = []"
| "goto_pages (Goto n # es) = n # goto_pages es"
| "goto_pages (ClickNext n # es) = goto_pages es"

fun click_pages :: "browser_event list \<Rightarrow> nat list" where
  "click_pages [] = []"
| "click_pages (Goto n # es) = click_pages es"
| "click_pages (ClickNext n # es) = n # click_pages es"


subsection \<open>scrape_all_countries\<close>

definition european_countries :: "ustr list" where
  "european_countries = [ustr ''World'', ustr ''Portugal'']"

definition country_checkpoint_file :: "runtime \<Rightarrow> ustr \<Rightarrow> nat \<Rightarrow> ustr" where
  "country_checkpoint_file rt c page_no =
     ustr ''tennis_hotels_'' @ lower rt c @ ustr ''_checkpoint_page_'' @ str_nat page_no
       @ ustr ''.json''"

definition country_file :: "runtime \<Rightarrow> ustr \<Rightarrow> ustr" where
  "country_file rt c = ustr ''tennis_hotels_'' @ lower rt c @ ustr ''.json''"

definition europe_file :: ustr where
  "europe_file = ustr ''tennis_hotels_europe.json''"

text \<open>
  The \<open>for current_page in range(1, total_pages + 1)\<close> loop of one country. The first
  component is \<open>None\<close> when \<open>page.goto\<close> raised: the exception leaves the loop for the
  handler of the country, and the files written before stay.
\<close>

fun country_pages ::
  "runtime \<Rightarrow> site \<Rightarrow> (nat \<Rightarrow> write_result) \<Rightarrow> ustr \<Rightarrow> nat list \<Rightarrow> hotel_data list \<Rightarrow> world
     \<Rightarrow> hotel_data list option \<times> world" where
  "country_pages rt st disk c [] country_hotels w = (Some country_hotels, w)"
| "country_pages rt st disk c (cur # rest) country_hotels w =
     (let w1 = event_add (Goto cur) w
      in if \<not> goto_ok st cur then (None, w1)
         else
           (let page_hotels =
                  map (\<lambda>h. h\<lparr>source_country := c\<rparr>)
                    (extract_page rt (ustr ''World'') (clock st cur) cur 1 (hotel_elements st cur));
                w2 = save_to_json disk page_hotels (country_checkpoint_file rt c cur) w1
            in country_pages rt st disk c rest (country_hotels @ page_hotels) w2))"

definition scrape_country ::
  "runtime \<Rightarrow> site \<Rightarrow> (nat \<Rightarrow> write_result) \<Rightarrow> ustr \<Rightarrow> world \<Rightarrow> hotel_data list option \<times> world" where
  "scrape_country rt st disk c w =
     (let w0 = event_add (Goto 1) w
      in if \<not> base_goto_ok st then (None, log_add (ErrorScrapingCountry c) w0)
         else
           (case country_pages rt st disk c [1 ..< get_total_pages rt (page_links st) + 1] [] w0 of
              (None, w1) \<Rightarrow> (None, log_add (ErrorScrapingCountry c) w1)
            | (Some country_hotels, w1) \<Rightarrow>
                (Some country_hotels, save_to_json disk country_hotels (country_file rt c) w1)))"

fun sweep ::
  "runtime \<Rightarrow> (ustr \<Rightarrow> site) \<Rightarrow> (nat \<Rightarrow> write_result) \<Rightarrow> ustr list \<Rightarrow> hotel_data list \<Rightarrow> world
     \<Rightarrow> hotel_data list \<times> world" where
  "sweep rt sites disk [] all_countries_data w = (all_countries_data, w)"
| "sweep rt sites disk (c # cs) all_countries_data w =
     (case scrape_country rt (sites c) disk c w of
        (None, w1) \<Rightarrow> sweep rt sites disk cs all_countries_data w1
      | (Some country_hotels, w1) \<Rightarrow>
          sweep rt sites disk cs (all_countries_data @ country_hotels) w1)"

definition scrape_all_countries ::
  "runtime \<Rightarrow> (ustr \<Rightarrow> site) \<Rightarrow> (nat \<Rightarrow> write_result) \<Rightarrow> world \<Rightarrow> hotel_data list \<times> world" where
  "scrape_all_countries rt sites disk w =
     (case sweep rt sites disk european_countries [] w of
        (all_countries_data, w1) \<Rightarrow>
          (all_countries_data, save_to_json disk all_countries_data europe_file w1))"

section \<open>The relational store\<close>

text \<open>
  The SQLite file \<open>tennis_hotels.db\<close>. A value in a row is \<open>NULL\<close>, an integer, a real or
  a text. A table keeps its rows in insertion order, together with the counter that
  \<open>AUTOINCREMENT\<close> keeps in \<open>sqlite_sequence\<close> (the largest row id ever given out). A
  table that has not been created is \<open>None\<close>. Foreign keys are declared in the schema but
  not enforced: the connections of the source never switch \<open>PRAGMA foreign_keys\<close> on.

  A value stored in a TEXT column is converted to text when it is a number; the
  rendering of a real as text is SQLite's own and is a parameter (\<open>rtext\<close>) of the model.
  In the numeric columns the model keeps the value as it was bound; no statement of the
  source compares or selects on them.
\<close>

datatype sqlval = SNull | SInt int | SReal pyfloat | SText ustr

record hotel_row =
  h_id :: nat
  h_name :: sqlval
  h_location :: sqlval
  h_country :: sqlval
  h_source_country :: sqlval
  h_star_rating :: sqlval
  h_rating_score :: sqlval
  h_rating_text :: sqlval
  h_page_number :: sqlval
  h_scrape_timestamp :: sqlval

record price_row =
  p_id :: nat
  p_hotel_id :: nat
  p_values :: "sqlval list"

record facility_row =
  f_id :: nat
  f_hotel_id :: nat
  f_values :: "sqlval list"

record surface_row =
  s_id :: nat
  s_facility_id :: nat
  s_surface_type :: sqlval
  s_court_count :: sqlval

record geo_row =
  g_id :: nat
  g_location_string :: sqlval
  g_latitude :: sqlval
  g_longitude :: sqlval
  g_country_code :: sqlval
  g_formatted_address :: sqlval

record 'r table =
  rows :: "'r list"
  seq :: nat

record database =
  hotels_tbl :: "hotel_row table option"
  prices_tbl :: "price_row table option"
  facilities_tbl :: "facility_row table option"
  surfaces_tbl :: "surface_row table option"
  geocoding_tbl :: "geo_row table option"

definition empty_table :: "'r table" where
  "empty_table = \<lparr>rows = [], seq = 0\<rparr>"

text \<open>\<open>str(i)\<close> of an integer, and the conversion of a value stored in a TEXT column.\<close>

definition str_int :: "int \<Rightarrow> ustr" where
  "str_int i = (if i < 0 then 45 # str_nat (nat (- i)) else str_nat (nat i))"

fun text_affinity :: "(pyfloat \<Rightarrow> ustr) \<Rightarrow> sqlval \<Rightarrow> sqlval" where
  "text_affinity rtext SNull = SNull"
| "text_affinity rtext (SInt i) = SText (str_int i)"
| "text_affinity rtext (SReal r) = SText (rtext r)"
| "text_affinity rtext (SText s) = SText s"

section \<open>The consolidator (consolidate_data.py)\<close>

subsection \<open>The records read from a file\<close>

text \<open>
  What \<open>json.load\<close> returns. An object is a list of key/value pairs with distinct keys,
  in the order of the file.
\<close>

datatype json =
    JNull
  | JBool bool
  | JInt int
  | JFloat pyfloat
  | JStr ustr
  | JArr "json list"
  | JObj "(ustr \<times> json) list"

datatype py_exc =
    KeyError | TypeError | AttributeError | OverflowError | UnicodeEncodeError | SqlError
  | OSError

text \<open>\<open>d[key]\<close> with a string key, \<open>d.get(key)\<close>, \<open>d.get(key, default)\<close> and \<open>if v:\<close>.\<close>

definition subscript :: "json \<Rightarrow> ustr \<Rightarrow> py_exc + json" where
  "subscript d k =
     (case d of
        JObj kvs \<Rightarrow> (case map_of kvs k of None \<Rightarrow> Inl KeyError | Some v \<Rightarrow> Inr v)
      | _ \<Rightarrow> Inl TypeError)"

definition get_or :: "json \<Rightarrow> ustr \<Rightarrow> json \<Rightarrow> py_exc + json" where
  "get_or d k dflt =
     (case d of
        JObj kvs \<Rightarrow> (case map_of kvs k of None \<Rightarrow> Inr dflt | Some v \<Rightarrow> Inr v)
      | _ \<Rightarrow> Inl AttributeError)"

fun truthy :: "json \<Rightarrow> bool" where
  "truthy JNull = False"
| "truthy (JBool b) = b"
| "truthy (JInt i) = (i \<noteq> 0)"
| "truthy (JFloat x) = (x \<noteq> Finite 0 \<and> x \<noteq> NegativeZero)"
| "truthy (JStr s) = (s \<noteq> [])"
| "truthy (JArr xs) = (xs \<noteq> [])"
| "truthy (JObj kvs) = (kvs \<noteq> [])"

text \<open>
  Binding a Python value to a statement parameter: \<open>None\<close> is NULL, a bool is 0 or 1, an
  int must fit 64 bits, a float is a REAL (NULL when it is not a number), a str must be
  encodable as UTF-8 (no lone surrogate); a list or a dict cannot be bound.
\<close>

definition bind :: "json \<Rightarrow> py_exc + sqlval" where
  "bind v =
     (case v of
        JNull \<Rightarrow> Inr SNull
      | JBool b \<Rightarrow> Inr (SInt (if b then 1 else 0))
      | JInt i \<Rightarrow>
          if - (2 ^ 63) \<le> i \<and> i < 2 ^ 63 then Inr (SInt i) else Inl OverflowError
      | JFloat x \<Rightarrow> Inr (if x = NotANumber then SNull else SReal x)
      | JStr s \<Rightarrow>
          if list_ex (\<lambda>c. 55296 \<le> c \<and> c \<le> 57343) s then Inl UnicodeEncodeError
          else Inr (SText s)
      | JArr xs \<Rightarrow> Inl SqlError
      | JObj kvs \<Rightarrow> Inl SqlError)"

text \<open>
  The argument expressions of a call are evaluated from left to right, and the first
  exception leaves; the values are then bound in the same order.
\<close>

definition thenE :: "'e + 'a \<Rightarrow> ('a \<Rightarrow> 'e + 'b) \<Rightarrow> 'e + 'b" where
  "thenE m f = (case m of Inl e \<Rightarrow> Inl e | Inr x \<Rightarrow> f x)"

fun eval_args :: "('e + 'a) list \<Rightarrow> 'e + 'a list" where
  "eval_args [] = Inr []"
| "eval_args (a # as) = thenE a (\<lambda>v. thenE (eval_args as) (\<lambda>vs. Inr (v # vs)))"

fun bind_params :: "json list \<Rightarrow> py_exc + sqlval list" where
  "bind_params [] = Inr []"
| "bind_params (v # vs) = thenE (bind v) (\<lambda>s. thenE (bind_params vs) (\<lambda>ss. Inr (s # ss)))"

subsection \<open>The statements of insert_hotel_data\<close>

text \<open>
  The row id \<open>AUTOINCREMENT\<close> gives to a new row: one more than the largest id the table
  has ever held.
\<close>

definition next_id :: "nat list \<Rightarrow> nat \<Rightarrow> nat" where
  "next_id ids sq = Suc (fold max ids sq)"

text \<open>
  \<open>UNIQUE(name, location, scrape_timestamp)\<close>: two rows conflict when the three columns
  are equal and none of them is NULL.
\<close>

definition key_conflict :: "hotel_row \<Rightarrow> hotel_row \<Rightarrow> bool" where
  "key_conflict r r' =
     (h_name r \<noteq> SNull \<and> h_location r \<noteq> SNull \<and> h_scrape_timestamp r \<noteq> SNull
      \<and> h_name r = h_name r' \<and> h_location r = h_location r'
      \<and> h_scrape_timestamp r = h_scrape_timestamp r')"

text \<open>
  \<open>INSERT OR REPLACE INTO hotels\<close>: a NULL name is refused (\<open>NOT NULL\<close>, no default); the
  rows that conflict with the new one are deleted, and the new row is added under a new
  id, which is \<open>cursor.lastrowid\<close>.
\<close>

definition insert_or_replace_hotel ::
  "(pyfloat \<Rightarrow> ustr) \<Rightarrow> sqlval list \<Rightarrow> database \<Rightarrow> py_exc + nat \<times> database" where
  "insert_or_replace_hotel rtext params db =
     (case (hotels_tbl db, params) of
        (Some t, [nm, loc, ctry, src, stars, score, rtxt, pg, ts]) \<Rightarrow>
          (let i = next_id (map h_id (rows t)) (seq t);
               r = \<lparr>h_id = i, h_name = text_affinity rtext nm,
                    h_location = text_affinity rtext loc,
                    h_country = text_affinity rtext ctry,
                    h_source_country = text_affinity rtext src, h_star_rating = stars,
                    h_rating_score = score, h_rating_text = text_affinity rtext rtxt,
                    h_page_number = pg, h_scrape_timestamp = text_affinity rtext ts\<rparr>
           in if h_name r = SNull then Inl SqlError
              else Inr (i, db\<lparr>hotels_tbl :=
                             Some \<lparr>rows = filter (\<lambda>r'. \<not> key_conflict r r') (rows t) @ [r],
                                   seq = i\<rparr>\<rparr>))
      | _ \<Rightarrow> Inl SqlError)"

definition insert_price :: "nat \<Rightarrow> sqlval list \<Rightarrow> database \<Rightarrow> py_exc + database" where
  "insert_price hotel_id params db =
     (case prices_tbl db of
        None \<Rightarrow> Inl SqlError
      | Some t \<Rightarrow>
          (let i = next_id (map p_id (rows t)) (seq t)
           in Inr (db\<lparr>prices_tbl :=
                        Some \<lparr>rows = rows t @ [\<lparr>p_id = i, p_hotel_id = hotel_id, p_values = params\<rparr>],
                              seq = i\<rparr>\<rparr>)))"

definition insert_facility :: "nat \<Rightarrow> sqlval list \<Rightarrow> database \<Rightarrow> py_exc + nat \<times> database" where
  "insert_facility hotel_id params db =
     (case facilities_tbl db of
        None \<Rightarrow> Inl SqlError
      | Some t \<Rightarrow>
          (let i = next_id (map f_id (rows t)) (seq t)
           in Inr (i, db\<lparr>facilities_tbl :=
                           Some \<lparr>rows = rows t @ [\<lparr>f_id = i, f_hotel_id = hotel_id,
                                                    f_values = params\<rparr>],
                                 seq = i\<rparr>\<rparr>)))"

definition insert_surface :: "(pyfloat \<Rightarrow> ustr) \<Rightarrow> nat \<Rightarrow> sqlval \<Rightarrow> sqlval \<Rightarrow> database \<Rightarrow> py_exc + database" where
  "insert_surface rtext facility_id surface cnt db =
     (case surfaces_tbl db of
        None \<Rightarrow> Inl SqlError
      | Some t \<Rightarrow>
          (let i = next_id (map s_id (rows t)) (seq t)
           in Inr (db\<lparr>surfaces_tbl :=
                        Some \<lparr>rows = rows t @ [\<lparr>s_id = i, s_facility_id = facility_id,
                                                 s_surface_type = text_affinity rtext surface,
                                                 s_court_count = cnt\<rparr>],
                              seq = i\<rparr>\<rparr>)))"

subsection \<open>insert_hotel_data\<close>

text \<open>The loop over \<open>surface_counts.items()\<close>.\<close>

fun insert_surfaces ::
  "(pyfloat \<Rightarrow> ustr) \<Rightarrow> nat \<Rightarrow> (ustr \<times> json) list \<Rightarrow> database \<Rightarrow> py_exc + database" where
  "insert_surfaces rtext facility_id [] db = Inr db"
| "insert_surfaces rtext facility_id ((surface, cnt) # items) db =
     thenE (bind (JStr surface)) (\<lambda>s.
     thenE (bind cnt) (\<lambda>c.
     thenE (insert_surface rtext facility_id s c db)
       (insert_surfaces rtext facility_id items)))"

definition items :: "json \<Rightarrow> py_exc + (ustr \<times> json) list" where
  "items v = (case v of JObj kvs \<Rightarrow> Inr kvs | _ \<Rightarrow> Inl AttributeError)"

text \<open>
  The body of the \<open>try\<close>, up to the commit: the database with the rows of the record, or
  the exception that left it. \<open>now\<close> is \<open>datetime.now().isoformat()\<close>.
\<close>

definition insert_rows :: "(pyfloat \<Rightarrow> ustr) \<Rightarrow> ustr \<Rightarrow> json \<Rightarrow> database \<Rightarrow> py_exc + database" where
  "insert_rows rtext now hotel db =
     thenE (eval_args
              [subscript hotel (ustr ''name''),
               get_or hotel (ustr ''location'') (JStr []),
               get_or hotel (ustr ''country'') (JStr []),
               get_or hotel (ustr ''source_country'') (JStr []),
               get_or hotel (ustr ''star_rating'') (JInt 0),
               get_or hotel (ustr ''rating_score'') JNull,
               get_or hotel (ustr ''rating_text'') (JStr []),
               get_or hotel (ustr ''page_number'') (JInt 0),
               get_or hotel (ustr ''scrape_timestamp'') (JStr now)]) (\<lambda>vs.
     thenE (bind_params vs) (\<lambda>ps.
     thenE (insert_or_replace_hotel rtext ps db) (\<lambda>(hotel_id, db1).
     thenE (get_or hotel (ustr ''price'') JNull) (\<lambda>pr.
     thenE (if truthy pr then
              thenE (eval_args
                       [get_or pr (ustr ''amount'') JNull,
                        get_or pr (ustr ''currency'') JNull,
                        get_or pr (ustr ''provider'') JNull,
                        get_or pr (ustr ''room_type'') JNull,
                        get_or pr (ustr ''cancellation_policy'') JNull]) (\<lambda>vs.
              thenE (bind_params vs) (\<lambda>ps. insert_price hotel_id ps db1))
            else Inr db1) (\<lambda>db2.
     thenE (get_or hotel (ustr ''tennis_facilities'') JNull) (\<lambda>tf.
       if truthy tf then
         thenE (eval_args
                  [get_or tf (ustr ''total_courts'') (JInt 0),
                   get_or tf (ustr ''lighted_courts'') (JInt 0),
                   get_or tf (ustr ''opening_hours'') (JStr []),
                   get_or tf (ustr ''court_cost'') (JStr []),
                   get_or tf (ustr ''lessons_available'') (JBool False),
                   get_or tf (ustr ''lessons_cost'') (JStr []),
                   get_or tf (ustr ''equipment_rental'') (JBool False),
                   get_or tf (ustr ''equipment_cost'') (JStr []),
                   get_or tf (ustr ''tennis_camps'') (JBool False),
                   get_or tf (ustr ''tournaments'') (JBool False),
                   get_or tf (ustr ''tennis_shop'') (JBool False)]) (\<lambda>vs.
         thenE (bind_params vs) (\<lambda>ps.
         thenE (insert_facility hotel_id ps db2) (\<lambda>(facility_id, db3).
           case tf of
             JObj kvs \<Rightarrow>
               (case map_of kvs (ustr ''surface_counts'') of
                  None \<Rightarrow> Inr db3
                | Some sc \<Rightarrow>
                    thenE (items sc) (\<lambda>kvs'. insert_surfaces rtext facility_id kvs' db3))
           | _ \<Rightarrow> Inl TypeError)))
       else Inr db2))))))"

text \<open>
  \<open>insert_hotel_data\<close>: \<open>Inr True\<close> after the commit. When the body raises, the handler
  formats its message with \<open>hotel_data['name']\<close>; if that succeeds, it rolls back and the
  function returns \<open>False\<close>; if it raises (the key is missing, or the value is not a
  dictionary), the exception leaves the function and the connection rolls back on exit.
  In both cases the database is as it was before the call.
\<close>

definition insert_hotel_data ::
  "(pyfloat \<Rightarrow> ustr) \<Rightarrow> ustr \<Rightarrow> json \<Rightarrow> database \<Rightarrow> (py_exc + bool) \<times> database" where
  "insert_hotel_data rtext now hotel db =
     (case insert_rows rtext now hotel db of
        Inr db' \<Rightarrow> (Inr True, db')
      | Inl e \<Rightarrow>
          (case subscript hotel (ustr ''name'') of
             Inl e' \<Rightarrow> (Inl e', db)
           | Inr _ \<Rightarrow> (Inr False, db)))"

subsection \<open>process_json_file\<close>

text \<open>What \<open>for hotel in hotels\<close> iterates over; \<open>None\<close> when the value is not iterable.\<close>

definition py_iter :: "json \<Rightarrow> json list option" where
  "py_iter v =
     (case v of
        JArr xs \<Rightarrow> Some xs
      | JObj kvs \<Rightarrow> Some (map (\<lambda>kv. JStr (fst kv)) kvs)
      | JStr s \<Rightarrow> Some (map (\<lambda>c. JStr [c]) s)
      | _ \<Rightarrow> None)"

text \<open>
  The loop of \<open>process_json_file\<close>: the number of successful inserts, or \<open>None\<close> when an
  exception left \<open>insert_hotel_data\<close>. \<open>clock i\<close> is the time of the \<open>i\<close>-th call.
\<close>

fun process_hotels ::
  "(pyfloat \<Rightarrow> ustr) \<Rightarrow> (nat \<Rightarrow> ustr) \<Rightarrow> nat \<Rightarrow> json list \<Rightarrow> nat \<Rightarrow> database
     \<Rightarrow> nat option \<times> database" where
  "process_hotels rtext clk i [] successful_inserts db = (Some successful_inserts, db)"
| "process_hotels rtext clk i (hotel # hotels) successful_inserts db =
     (case insert_hotel_data rtext (clk i) hotel db of
        (Inl e, db') \<Rightarrow> (None, db')
      | (Inr ok, db') \<Rightarrow>
          process_hotels rtext clk (Suc i) hotels
            (if ok then successful_inserts + 1 else successful_inserts) db')"

text \<open>
  \<open>process_json_file\<close> on a file whose content parses to \<open>Some v\<close>, or that cannot be read
  or parsed (\<open>None\<close>): the number it returns and the database after it.
\<close>

definition process_json_file ::
  "(pyfloat \<Rightarrow> ustr) \<Rightarrow> (nat \<Rightarrow> ustr) \<Rightarrow> json option \<Rightarrow> database \<Rightarrow> nat \<times> database" where
  "process_json_file rtext clk content db =
     (case content of
        None \<Rightarrow> (0, db)
      | Some v \<Rightarrow>
          (case py_iter v of
             None \<Rightarrow> (0, db)
           | Some hotels \<Rightarrow>
               (case process_hotels rtext clk 0 hotels 0 db of
                  (None, db') \<Rightarrow> (0, db')
                | (Some n, db') \<Rightarrow> (n, db'))))"

subsection \<open>delete_database and initialize_database\<close>

text \<open>
  The database file is \<open>None\<close> when it does not exist. \<open>remove_ok\<close> says whether
  \<open>os.remove\<close> succeeds; its failure is logged and raised again.
\<close>

definition delete_database :: "bool \<Rightarrow> database option \<Rightarrow> py_exc + database option" where
  "delete_database remove_ok file =
     (case file of
        None \<Rightarrow> Inr None
      | Some db \<Rightarrow> if remove_ok then Inr None else Inl OSError)"

definition create_if_not_exists :: "'r table option \<Rightarrow> 'r table option" where
  "create_if_not_exists t = (case t of None \<Rightarrow> Some empty_table | Some x \<Rightarrow> Some x)"

definition no_tables :: database where
  "no_tables = \<lparr>hotels_tbl = None, prices_tbl = None, facilities_tbl = None,
                 surfaces_tbl = None, geocoding_tbl = None\<rparr>"

text \<open>\<open>sqlite3.connect\<close> creates the file when it is missing.\<close>

definition setup_database :: "database option \<Rightarrow> database option" where
  "setup_database file =
     (let db = (case file of None \<Rightarrow> no_tables | Some d \<Rightarrow> d)
      in Some (db\<lparr>hotels_tbl := create_if_not_exists (hotels_tbl db),
                   prices_tbl := create_if_not_exists (prices_tbl db),
                   facilities_tbl := create_if_not_exists (facilities_tbl db),
                   surfaces_tbl := create_if_not_exists (surfaces_tbl db)\<rparr>))"

definition initialize_database :: "bool \<Rightarrow> database option \<Rightarrow> (py_exc + unit) \<times> database option" where
  "initialize_database remove_ok file =
     (case delete_database remove_ok file of
        Inl e \<Rightarrow> (Inl e, file)
      | Inr file' \<Rightarrow> (Inr (), setup_database file'))"

section \<open>The geocoder (add_geocoding.py)\<close>

subsection \<open>geocode_location\<close>

text \<open>
  The in-memory cache maps a key to the dictionary \<open>geocode_location\<close> built for it (the
  cache file is taken to hold what \<open>save_cache\<close> writes). The external service is a
  parameter: \<open>api i q\<close> is what the \<open>i\<close>-th request returns when it asks for \<open>q\<close>, either
  an exception of \<open>requests.get\<close>, \<open>raise_for_status\<close> or \<open>response.json\<close>, or the parsed
  body. \<open>requests\<close> lists the queries sent, \<open>saved\<close> is the content of the cache file,
  written when \<open>save_ok\<close> allows it, and \<open>slept\<close> counts the pauses.
\<close>

record geocoded =
  lat :: pyfloat
  lon :: pyfloat
  country_code :: json
  formatted_address :: json

datatype api_response = ApiError | ApiBody json

record geocoder =
  cache :: "ustr \<Rightarrow> geocoded option"
  requests :: "ustr list"
  saved :: "(ustr \<Rightarrow> geocoded option) option"
  slept :: nat

text \<open>
  \<open>float(v)\<close> of a parsed JSON value; \<open>None\<close> is the TypeError, the ValueError, or the
  OverflowError of an integer that rounds beyond the largest binary64 number.
\<close>

definition float_of_json :: "runtime \<Rightarrow> json \<Rightarrow> pyfloat option" where
  "float_of_json rt v =
     (case v of
        JStr s \<Rightarrow> py_float rt s
      | JInt i \<Rightarrow>
          (case binary64 (i < 0) (nat \<bar>i\<bar>) 1 of
             Infinity b \<Rightarrow> None
           | x \<Rightarrow> Some x)
      | JFloat x \<Rightarrow> Some x
      | JBool b \<Rightarrow> Some (Finite (if b then 1 else 0))
      | _ \<Rightarrow> None)"

text \<open>
  The dictionary built from the body of the response; \<open>None\<close> when the body is empty or
  an exception is raised on the way (all are caught and logged by the function).
\<close>

definition first_result :: "runtime \<Rightarrow> json \<Rightarrow> geocoded option" where
  "first_result rt results =
     (case results of
        JArr (JObj kvs # _) \<Rightarrow>
          (case (map_of kvs (ustr ''lat''), map_of kvs (ustr ''lon'')) of
             (Some la, Some lo) \<Rightarrow>
               (case (float_of_json rt la, float_of_json rt lo) of
                  (Some x, Some y) \<Rightarrow>
                    (case (case map_of kvs (ustr ''address'') of
                             None \<Rightarrow> Inr (JStr [])
                           | Some a \<Rightarrow> get_or a (ustr ''country_code'') (JStr [])) of
                       Inl e \<Rightarrow> None
                     | Inr cc \<Rightarrow>
                         Some \<lparr>lat = x, lon = y, country_code = cc,
                               formatted_address =
                                 (case map_of kvs (ustr ''display_name'') of
                                    None \<Rightarrow> JStr [] | Some d \<Rightarrow> d)\<rparr>)
                | _ \<Rightarrow> None)
           | _ \<Rightarrow> None)
      | _ \<Rightarrow> None)"

text \<open>\<open>f"{location}, {country}".strip(', ')\<close>, where \<open>country\<close> may be \<open>None\<close>.\<close>

definition cache_key :: "ustr \<Rightarrow> ustr option \<Rightarrow> ustr" where
  "cache_key loc ctry =
     strip_chars (ustr '', '')
       (loc @ ustr '', '' @ (case ctry of None \<Rightarrow> ustr ''None'' | Some c \<Rightarrow> c))"

definition search_query :: "ustr \<Rightarrow> ustr option \<Rightarrow> ustr" where
  "search_query loc ctry =
     (case ctry of
        None \<Rightarrow> loc
      | Some c \<Rightarrow> if c = [] then loc else loc @ ustr '', '' @ c)"

definition geocode_location ::
  "runtime \<Rightarrow> (nat \<Rightarrow> ustr \<Rightarrow> api_response) \<Rightarrow> (nat \<Rightarrow> bool) \<Rightarrow> ustr \<Rightarrow> ustr option \<Rightarrow> geocoder
     \<Rightarrow> geocoded option \<times> geocoder" where
  "geocode_location rt api save_ok loc ctry g =
     (if loc = [] then (None, g)
      else
        (case cache g (cache_key loc ctry) of
           Some v \<Rightarrow> (Some v, g)
         | None \<Rightarrow>
             (let q = search_query loc ctry;
                  g1 = g\<lparr>requests := requests g @ [q]\<rparr>
              in case api (length (requests g)) q of
                   ApiError \<Rightarrow> (None, g1)
                 | ApiBody results \<Rightarrow>
                     (case first_result rt results of
                        None \<Rightarrow> (None, g1)
                      | Some geocoded_data \<Rightarrow>
                          (let c' = (cache g1)(cache_key loc ctry \<mapsto> geocoded_data)
                           in (Some geocoded_data,
                               g1\<lparr>cache := c',
                                   saved := (if save_ok (length (requests g)) then Some c'
                                             else saved g1),
                                   slept := slept g1 + 1\<rparr>))))))"

subsection \<open>update_database_geocoding\<close>

text \<open>
  A TEXT column holds NULL or a text (numbers are converted when they are stored), so
  the rows the queries return give Python a string or \<open>None\<close>. The rows of a
  \<open>SELECT DISTINCT\<close> are taken in the order of their first occurrence in the table.
\<close>

definition distinct_rows :: "'a list \<Rightarrow> 'a list" where
  "distinct_rows xs = rev (remdups (rev xs))"

definition text_of :: "sqlval \<Rightarrow> ustr option" where
  "text_of v = (case v of SText s \<Rightarrow> Some s | _ \<Rightarrow> None)"

definition is_geocoded :: "geo_row list \<Rightarrow> sqlval \<Rightarrow> bool" where
  "is_geocoded geos l = list_ex (\<lambda>g. g_location_string g = l) geos"

text \<open>
  \<open>SELECT DISTINCT h.location, h.country FROM hotels h LEFT JOIN geocoding g
  ON h.location = g.location_string WHERE g.location_string IS NULL
  AND h.location IS NOT NULL\<close>
\<close>

definition locations_to_geocode :: "hotel_row list \<Rightarrow> geo_row list \<Rightarrow> (sqlval \<times> sqlval) list" where
  "locations_to_geocode hs geos =
     distinct_rows
       (map (\<lambda>h. (h_location h, h_country h))
          (filter (\<lambda>h. h_location h \<noteq> SNull \<and> \<not> is_geocoded geos (h_location h)) hs))"

text \<open>
  \<open>INSERT OR REPLACE INTO geocoding\<close>: \<open>location_string\<close> is UNIQUE, so a row with the
  same location is replaced.
\<close>

definition insert_or_replace_geocoding ::
  "(pyfloat \<Rightarrow> ustr) \<Rightarrow> sqlval list \<Rightarrow> geo_row table \<Rightarrow> geo_row table" where
  "insert_or_replace_geocoding rtext params t =
     (case params of
        [l, la, lo, cc, fa] \<Rightarrow>
          (let i = next_id (map g_id (rows t)) (seq t);
               l' = text_affinity rtext l
           in \<lparr>rows = filter (\<lambda>g. l' = SNull \<or> g_location_string g \<noteq> l') (rows t)
                        @ [\<lparr>g_id = i, g_location_string = l', g_latitude = la,
                             g_longitude = lo, g_country_code = text_affinity rtext cc,
                             g_formatted_address = text_affinity rtext fa\<rparr>],
               seq = i\<rparr>)
      | _ \<Rightarrow> t)"

definition missing_country :: "hotel_row \<Rightarrow> bool" where
  "missing_country h = (h_country h = SNull \<or> h_country h = SText [])"

text \<open>
  \<open>UPDATE hotels SET country = ? WHERE location = ? AND (country IS NULL OR country = '')\<close>
\<close>

definition fill_country :: "ustr \<Rightarrow> ustr \<Rightarrow> hotel_row list \<Rightarrow> hotel_row list" where
  "fill_country country_name l hs =
     map (\<lambda>h. if h_location h = SText l \<and> missing_country h
               then h\<lparr>h_country := SText country_name\<rparr> else h) hs"

text \<open>\<open>UPDATE hotels SET country = ? WHERE location = ?\<close>\<close>

definition set_country :: "ustr \<Rightarrow> ustr \<Rightarrow> hotel_row list \<Rightarrow> hotel_row list" where
  "set_country country_name l hs =
     map (\<lambda>h. if h_location h = SText l then h\<lparr>h_country := SText country_name\<rparr> else h) hs"

text \<open>\<open>formatted_address.split(', ')[-1]\<close>\<close>

definition country_of_address :: "ustr \<Rightarrow> ustr" where
  "country_of_address a = last_piece (split a (ustr '', ''))"

text \<open>
  The body of the loop for one location. The insert is executed first; when the address
  is not a string the exception is caught after it, and the inserted row is committed
  with the next commit.
\<close>

definition store_geocoding ::
  "(pyfloat \<Rightarrow> ustr) \<Rightarrow> ustr \<Rightarrow> geocoded \<Rightarrow> hotel_row table \<Rightarrow> geo_row table
     \<Rightarrow> hotel_row table \<times> geo_row table" where
  "store_geocoding rtext l geo ht gt =
     (case bind_params [JStr l, JFloat (lat geo), JFloat (lon geo), country_code geo,
                        formatted_address geo] of
        Inl e \<Rightarrow> (ht, gt)
      | Inr ps \<Rightarrow>
          (let gt' = insert_or_replace_geocoding rtext ps gt
           in case formatted_address geo of
                JStr a \<Rightarrow> (ht\<lparr>rows := fill_country (country_of_address a) l (rows ht)\<rparr>, gt')
              | _ \<Rightarrow> (ht, gt')))"

fun geocode_all ::
  "runtime \<Rightarrow> (nat \<Rightarrow> ustr \<Rightarrow> api_response) \<Rightarrow> (nat \<Rightarrow> bool) \<Rightarrow> (pyfloat \<Rightarrow> ustr)
     \<Rightarrow> (sqlval \<times> sqlval) list \<Rightarrow> hotel_row table \<Rightarrow> geo_row table \<Rightarrow> geocoder
     \<Rightarrow> hotel_row table \<times> geo_row table \<times> geocoder" where
  "geocode_all rt api save_ok rtext [] ht gt g = (ht, gt, g)"
| "geocode_all rt api save_ok rtext ((l, c) # todo) ht gt g =
     (case text_of l of
        None \<Rightarrow> geocode_all rt api save_ok rtext todo ht gt g
      | Some loc \<Rightarrow>
          (case geocode_location rt api save_ok loc (text_of c) g of
             (None, g') \<Rightarrow> geocode_all rt api save_ok rtext todo ht gt g'
           | (Some geo, g') \<Rightarrow>
               (case store_geocoding rtext loc geo ht gt of
                  (ht', gt') \<Rightarrow> geocode_all rt api save_ok rtext todo ht' gt' g')))"

text \<open>
  \<open>update_database_geocoding\<close>; \<open>None\<close> when a table of the query does not exist and
  the query raises.
\<close>

definition update_database_geocoding ::
  "runtime \<Rightarrow> (nat \<Rightarrow> ustr \<Rightarrow> api_response) \<Rightarrow> (nat \<Rightarrow> bool) \<Rightarrow> (pyfloat \<Rightarrow> ustr)
     \<Rightarrow> database \<Rightarrow> geocoder \<Rightarrow> (database \<times> geocoder) option" where
  "update_database_geocoding rt api save_ok rtext db g =
     (case (hotels_tbl db, geocoding_tbl db) of
        (Some ht, Some gt) \<Rightarrow>
          (case geocode_all rt api save_ok rtext (locations_to_geocode (rows ht) (rows gt))
                  ht gt g of
             (ht', gt', g') \<Rightarrow>
               Some (db\<lparr>hotels_tbl := Some ht', geocoding_tbl := Some gt'\<rparr>, g'))
      | _ \<Rightarrow> None)"

subsection \<open>update_missing_countries\<close>

text \<open>
  \<open>SELECT h.location, g.formatted_address FROM hotels h JOIN geocoding g
  ON h.location = g.location_string WHERE (h.country IS NULL OR h.country = '')\<close>
\<close>

definition locations_to_update :: "hotel_row list \<Rightarrow> geo_row list \<Rightarrow> (sqlval \<times> sqlval) list" where
  "locations_to_update hs geos =
     concat (map (\<lambda>h. map (\<lambda>g. (h_location h, g_formatted_address g))
                         (filter (\<lambda>g. h_location h \<noteq> SNull
                                       \<and> g_location_string g = h_location h) geos))
               (filter missing_country hs))"

text \<open>
  The loop over the fetched rows: a row whose address is NULL raises at \<open>split\<close> and is
  skipped.
\<close>

fun update_countries :: "(sqlval \<times> sqlval) list \<Rightarrow> hotel_row list \<Rightarrow> hotel_row list" where
  "update_countries [] hs = hs"
| "update_countries ((l, a) # todo) hs =
     (case (text_of l, text_of a) of
        (Some loc, Some addr) \<Rightarrow>
          update_countries todo (set_country (country_of_address addr) loc hs)
      | _ \<Rightarrow> update_countries todo hs)"

definition update_missing_countries :: "database \<Rightarrow> database option" where
  "update_missing_countries db =
     (case (hotels_tbl db, geocoding_tbl db) of
        (Some ht, Some gt) \<Rightarrow>
          Some (db\<lparr>hotels_tbl :=
                      Some (ht\<lparr>rows := update_countries
                                 (locations_to_update (rows ht) (rows gt)) (rows ht)\<rparr>)\<rparr>)
      | _ \<Rightarrow> None)"

section \<open>Concrete inputs\<close>

text \<open>
  A fresh working directory and browser, a disk on which every write succeeds, and sites
  without listings, used to run the walkers on concrete inputs:
  \<^item> \<open>site_stuck\<close> shows the page links 1, 2 and 3 and has no control for the next page;
  \<^item> \<open>site_two_pages\<close> shows the page links 1 and 2 and every navigation succeeds;
  \<^item> \<open>site_unnumbered\<close> has no pagination link with a numeric title.
\<close>

definition world0 :: world where
  "world0 = \<lparr>files = (\<lambda>f. None), logged = [], events = [], writes = 0\<rparr>"

definition disk_ok :: "nat \<Rightarrow> write_result" where
  "disk_ok i = WriteOk"

definition site_stuck :: site where
  "site_stuck =
     \<lparr>base_goto_ok = True, goto_ok = (\<lambda>n. True),
      page_links = [Some (ustr ''1''), Some (ustr ''2''), Some (ustr ''3'')],
      hotels_load = (\<lambda>n. True), hotel_elements = (\<lambda>n. []),
      next_page = (\<lambda>n. NoButton), clock = (\<lambda>n i. [])\<rparr>"

definition site_two_pages :: site where
  "site_two_pages =
     \<lparr>base_goto_ok = True, goto_ok = (\<lambda>n. True),
      page_links = [Some (ustr ''1''), Some (ustr ''2''), Some (ustr ''Next'')],
      hotels_load = (\<lambda>n. True), hotel_elements = (\<lambda>n. []),
      next_page = (\<lambda>n. Navigated), clock = (\<lambda>n i. [])\<rparr>"

definition site_unnumbered :: site where
  "site_unnumbered =
     \<lparr>base_goto_ok = True, goto_ok = (\<lambda>n. True),
      page_links = [None, Some (ustr ''Next'')],
      hotels_load = (\<lambda>n. True), hotel_elements = (\<lambda>n. []),
      next_page = (\<lambda>n. Navigated), clock = (\<lambda>n i. [])\<rparr>"





text \<open>
  For the geocoder: an empty cache, a service that finds nothing (\<open>api_empty\<close>), a service
  that finds Paris (\<open>api_paris\<close>), and a store with two hotels in Berlin, of which only the
  second has a country, and the geocoding row of Berlin (\<open>db_berlin\<close>).
\<close>

definition geocoder0 :: geocoder where
  "geocoder0 = \<lparr>cache = (\<lambda>k. None), requests = [], saved = None, slept = 0\<rparr>"

definition save_always :: "nat \<Rightarrow> bool" where
  "save_always i = True"

definition api_empty :: "nat \<Rightarrow> ustr \<Rightarrow> api_response" where
  "api_empty i q = ApiBody (JArr [])"

definition api_paris :: "nat \<Rightarrow> ustr \<Rightarrow> api_response" where
  "api_paris i q =
     ApiBody (JArr [JObj [(ustr ''lat'', JStr (ustr ''48.85'')),
                          (ustr ''lon'', JStr (ustr ''2.35'')),
                          (ustr ''display_name'', JStr (ustr ''Paris, France''))]])"

definition berlin_hotel :: "nat \<Rightarrow> ustr \<Rightarrow> ustr \<Rightarrow> hotel_row" where
  "berlin_hotel i n c =
     \<lparr>h_id = i, h_name = SText n, h_location = SText (ustr ''Berlin''), h_country = SText c,
      h_source_country = SText (ustr ''World''), h_star_rating = SInt 4,
      h_rating_score = SNull, h_rating_text = SText [], h_page_number = SInt 1,
      h_scrape_timestamp = SText (ustr ''2025-01-01T00:00:00'')\<rparr>"

definition db_berlin :: database where
  "db_berlin =
     \<lparr>hotels_tbl = Some \<lparr>rows = [berlin_hotel 1 (ustr ''A'') [],
                                 berlin_hotel 2 (ustr ''B'') (ustr ''Germany'')],
                         seq = 2\<rparr>,
      prices_tbl = Some empty_table, facilities_tbl = Some empty_table,
      surfaces_tbl = Some empty_table,
      geocoding_tbl =
        Some \<lparr>rows = [\<lparr>g_id = 1, g_location_string = SText (ustr ''Berlin''),
                        g_latitude = SReal (Finite 52.5), g_longitude = SReal (Finite 13.5),
                        g_country_code = SText (ustr ''de''),
                        g_formatted_address = SText (ustr ''Berlin, Deutschland'')\<rparr>],
              seq = 1\<rparr>\<rparr>"

definition hotel_countries :: "database \<Rightarrow> sqlval list" where
  "hotel_countries db = (case hotels_tbl db of None \<Rightarrow> [] | Some t \<Rightarrow> map h_country (rows t))"

text \<open>
  For the consolidator: the store as \<open>initialize_database\<close> leaves it, a file with one
  complete record (\<open>file_one_hotel\<close>), a file whose first record has no name
  (\<open>file_missing_name\<close>), and the number of rows of the four tables.
\<close>

definition fresh_database :: database where
  "fresh_database =
     \<lparr>hotels_tbl = Some empty_table, prices_tbl = Some empty_table,
      facilities_tbl = Some empty_table, surfaces_tbl = Some empty_table,
      geocoding_tbl = None\<rparr>"

definition court_hotel :: json where
  "court_hotel =
     JObj [(ustr ''name'', JStr (ustr ''Court Hotel'')),
           (ustr ''location'', JStr (ustr ''Lagos'')),
           (ustr ''scrape_timestamp'', JStr (ustr ''2025-01-01T00:00:00'')),
           (ustr ''price'', JObj [(ustr ''amount'', JInt 120), (ustr ''currency'', JStr (ustr ''GBP''))]),
           (ustr ''tennis_facilities'',
              JObj [(ustr ''total_courts'', JInt 3),
                    (ustr ''surface_counts'', JObj [(ustr ''Clay'', JInt 3)])])]"

definition file_one_hotel :: json where
  "file_one_hotel = JArr [court_hotel]"

definition file_missing_name :: json where
  "file_missing_name = JArr [JObj [(ustr ''location'', JStr (ustr ''Lagos''))], court_hotel]"

definition table_size :: "'r table option \<Rightarrow> nat" where
  "table_size t = (case t of None \<Rightarrow> 0 | Some x \<Rightarrow> length (rows x))"

definition row_counts :: "database \<Rightarrow> nat \<times> nat \<times> nat \<times> nat" where
  "row_counts db =
     (table_size (hotels_tbl db), table_size (prices_tbl db), table_size (facilities_tbl db),
      table_size (surfaces_tbl db))"

text \<open>
  \<open>country_kept h h'\<close>: the row \<open>h'\<close> stands for \<open>h\<close> after an update that only fills
  missing countries: it is the same row when \<open>h\<close> has a country.
\<close>

definition country_kept :: "hotel_row \<Rightarrow> hotel_row \<Rightarrow> bool" where
  "country_kept h h' = (if missing_country h then h_id h' = h_id h else h' = h)"

definition hotel_ids :: "database \<Rightarrow> nat list" where
  "hotel_ids db = (case hotels_tbl db of None \<Rightarrow> [] | Some t \<Rightarrow> map h_id (rows t))"

definition price_hotel_ids :: "database \<Rightarrow> nat list" where
  "price_hotel_ids db = (case prices_tbl db of None \<Rightarrow> [] | Some t \<Rightarrow> map p_hotel_id (rows t))"

text \<open>
  For the extractor: a listing of which only the name and the price text are present, and
  the amount and the currency of the record read from a listing.
\<close>

definition priced_fragment :: "ustr \<Rightarrow> fragment" where
  "priced_fragment t =
     \<lparr>name_el = Some (ustr ''Court Hotel''), location_el = None, star_elements = 3,
      circle_rating = None, rating_text_el = None,
      main_price_box = Some \<lparr>price_amount = Some t, provider_src = None,
                              room_type_el = None, cancellation_el = None\<rparr>,
      tab_height = None\<rparr>"

definition price_read :: "hotel_data option \<Rightarrow> (pyfloat option \<times> ustr) option" where
  "price_read r = (case r of None \<Rightarrow> None | Some h \<Rightarrow> Some (amount (price h), currency (price h)))"

section \<open>Properties of the text functions\<close>

text \<open>The equations that evaluate the text functions on a concrete string.\<close>

lemmas text_eval = ustr_def strip_def lstrip_by_def rstrip_by_def py_isspace_def startswith_def
  replace.simps split_from.simps split_def rstrip_chars_def strip_chars_def NEWLINE_def
  POUND_def EURO_def first_piece_def last_piece_def

lemmas float_eval = py_float_def to_ascii_def strtod_def parse_sign_def take_digits_def
  is_ascii_digit_def inf_or_nan_def ascii_lower_def c_isspace_def parse_exponent_def
  decimal_number_def decimal_of_def

lemma replace_char_filter: "replace s [c] [] = filter (\<lambda>x. x \<noteq> c) s"
proof (induction s)
  case Nil
  show ?case by (subst replace.simps) simp
next
  case (Cons a s)
  show ?case
    by (subst replace.simps) (use Cons in \<open>auto simp: startswith_def\<close>)
qed

lemma rstrip_by_id: "s = [] \<or> \<not> p (last s) \<Longrightarrow> rstrip_by p s = s"
  by (cases s rule: rev_cases) (auto simp: rstrip_by_def)

lemma lstrip_by_id: "s = [] \<or> \<not> p (hd s) \<Longrightarrow> lstrip_by p s = s"
  by (cases s) (auto simp: lstrip_by_def)

lemma underscores_ok_none: "95 \<notin> set s \<Longrightarrow> prev \<noteq> 95 \<Longrightarrow> underscores_ok prev s"
  by (induction s arbitrary: prev) auto

lemma digit_props:
  "is_ascii_digit c \<Longrightarrow>
     c < 127 \<and> c \<noteq> 95 \<and> c \<noteq> 45 \<and> c \<noteq> 43 \<and> c \<noteq> 44 \<and> \<not> c_isspace c \<and> \<not> py_isspace c"
  by (auto simp: is_ascii_digit_def c_isspace_def py_isspace_def)

text \<open>The bit length of a number below \<open>2 ^ k\<close> is at most \<open>k\<close>.\<close>

lemma bit_length_le: "n < 2 ^ k \<Longrightarrow> bit_length n \<le> k"
proof (induction n arbitrary: k rule: bit_length.induct)
  case (1 n)
  show ?case
  proof (cases "n = 0")
    case True
    then show ?thesis by (subst bit_length.simps) simp
  next
    case False
    with "1.prems" obtain k' where k: "k = Suc k'"
      by (cases k) auto
    have "n div 2 < 2 ^ k'"
      using "1.prems" k by auto
    then have "bit_length (n div 2) \<le> k'"
      by (rule "1.IH"[OF False])
    then show ?thesis
      by (subst bit_length.simps) (simp add: False k)
  qed
qed

lemma bit_length_pos: "n \<noteq> 0 \<Longrightarrow> 1 \<le> bit_length n"
  by (subst bit_length.simps) simp

lemma bit_length_1: "bit_length (Suc 0) = Suc 0"
  by (simp add: bit_length.simps)

lemma bit_length_one: "bit_length 1 = 1"
  using bit_length_1 by simp

lemma bit_length_gt: "2 ^ k \<le> n \<Longrightarrow> k < bit_length n"
proof (induction n arbitrary: k rule: bit_length.induct)
  case (1 n)
  have nz: "n \<noteq> 0"
    using "1.prems" by (cases "n = 0") auto
  show ?case
  proof (cases k)
    case 0
    then show ?thesis by (subst bit_length.simps) (simp add: nz)
  next
    case (Suc k')
    then have "2 ^ k' \<le> n div 2"
      using "1.prems" by auto
    then have "k' < bit_length (n div 2)"
      by (rule "1.IH"[OF nz])
    then show ?thesis
      by (subst bit_length.simps) (simp add: nz Suc)
  qed
qed

lemma bit_length_eq: "2 ^ k \<le> n \<Longrightarrow> n < 2 ^ Suc k \<Longrightarrow> bit_length n = Suc k"
  using bit_length_gt[of k n] bit_length_le[of n "Suc k"] by simp

text \<open>A whole number below \<open>2 ^ 53\<close> is a binary64 number: nothing is rounded.\<close>

lemma binary64_exact:
  assumes "n < 2 ^ 53"
  shows "binary64 False n 1 = Finite (real n)"
proof (cases "n = 0")
  case True
  then show ?thesis by (simp add: binary64_def)
next
  case False
  define b where "b = bit_length n"
  have b: "1 \<le> b" "b \<le> 53"
    unfolding b_def by (rule bit_length_pos[OF False], rule bit_length_le[OF assms])
  define e where "e = max (floor_log2 n 1 - 52) (- 1074)"
  have "floor_log2 n 1 = int b - 1 \<or> floor_log2 n 1 = int b - 2"
    unfolding floor_log2_def Let_def b_def[symmetric] by (simp add: bit_length_1)
  then have e: "- 53 \<le> e" "e \<le> 0"
    using b by (auto simp: e_def)
  define m where "m = nat (- e)"
  have ne: "nat e = 0" and m: "m \<le> 53"
    using e by (simp_all add: m_def)
  have r: "round_half_even (n * 2 ^ m) (1 * 2 ^ nat e) = n * 2 ^ m"
    by (simp add: round_half_even_def ne)
  have nz: "n * 2 ^ m \<noteq> 0"
    using False by simp
  have "(2::nat) ^ m \<le> 2 ^ 53"
    by (rule power_increasing) (use m in simp_all)
  then have "n * 2 ^ m < 2 ^ 53 * 2 ^ 53"
    using assms by (intro mult_less_le_imp_less) simp_all
  also have "(2::nat) ^ 53 * 2 ^ 53 \<le> 2 ^ 1024"
    by (simp add: power_add[symmetric] power_increasing del: power_add)
  finally have small: "\<not> 2 ^ 1024 \<le> n * 2 ^ m * 2 ^ nat e"
    by (simp add: ne)
  have "binary64 False n 1 = Finite (real (n * 2 ^ m) * 2 ^ nat e / 2 ^ m)"
    unfolding binary64_def Let_def e_def[symmetric] m_def[symmetric] r
    using False nz small by simp
  then show ?thesis
    by (simp add: ne)
qed

text \<open>
  \<open>float\<close> of a non-empty string of ASCII digits is the binary64 number nearest to the
  number the digits write.
\<close>

lemma py_float_digits:
  assumes ne: "ds \<noteq> []" and dig: "list_all is_ascii_digit ds"
  shows "py_float rt ds = Some (binary64 False (decimal_number (map (\<lambda>c. c - 48) ds)) 1)"
proof -
  have all: "\<And>c. c \<in> set ds \<Longrightarrow> is_ascii_digit c"
    using dig by (simp add: list_all_iff)
  have a: "map (to_ascii rt) ds = ds"
    by (rule map_idI) (use all digit_props in \<open>auto simp: to_ascii_def\<close>)
  have u: "underscores_ok 0 ds"
    by (rule underscores_ok_none) (use all digit_props in auto)
  have f: "filter (\<lambda>c. c \<noteq> 95) ds = ds"
    using all digit_props by (auto simp: filter_id_conv)
  have hd_d: "is_ascii_digit (hd ds)" and last_d: "is_ascii_digit (last ds)"
    using ne all by auto
  have l: "lstrip_by c_isspace ds = ds"
    by (rule lstrip_by_id) (use hd_d digit_props in auto)
  have r: "rstrip_by c_isspace ds = ds"
    by (rule rstrip_by_id) (use last_d digit_props in auto)
  have sg: "parse_sign ds = (False, ds)"
    using ne hd_d digit_props[of "hd ds"] by (cases ds) (auto simp: parse_sign_def)
  have tw: "takeWhile is_ascii_digit ds = ds"
    using all by (simp add: takeWhile_eq_all_conv)
  have dw: "dropWhile is_ascii_digit ds = []"
    using all by (simp add: dropWhile_eq_Nil_conv)
  have td: "take_digits ds = (map (\<lambda>c. c - 48) ds, [])"
    by (simp add: take_digits_def tw dw)
  have st: "strtod ds = Some ((False, decimal_number (map (\<lambda>c. c - 48) ds), 1), [])"
    using ne by (simp add: strtod_def sg td parse_exponent_def)
  show ?thesis
    by (simp add: py_float_def a u f l r st)
qed

text \<open>
  The rounding at work: the odd number \<open>2 ^ 53 + 1\<close> is read as \<open>2 ^ 53\<close>, a tenth is read
  as the binary64 number next to it, and \<open>1e309\<close> is read as infinity.
\<close>

lemma py_float_rounds:
  "py_float ascii_runtime (ustr ''9007199254740993'') = Some (Finite 9007199254740992)"
  "py_float ascii_runtime (ustr ''0.1'') = Some (Finite (3602879701896397 / 2 ^ 55))"
  "py_float ascii_runtime (ustr ''1e309'') = Some (Infinity False)"
proof -
  have s1: "py_float ascii_runtime (ustr ''9007199254740993'')
              = Some (binary64 False 9007199254740993 1)"
    and s2: "py_float ascii_runtime (ustr ''0.1'') = Some (binary64 False 1 10)"
    and s3: "py_float ascii_runtime (ustr ''1e309'') = Some (binary64 False (10 ^ 309) 1)"
    by (simp_all add: text_eval float_eval)
  have b1: "bit_length 9007199254740993 = Suc 53"
    by (rule bit_length_eq) simp_all
  have b2: "bit_length 10 = Suc 3"
    by (rule bit_length_eq) simp_all
  have b3: "bit_length (10 ^ 309) = Suc 1026"
    by (rule bit_length_eq) simp_all
  have f1: "floor_log2 9007199254740993 1 = 53"
    unfolding floor_log2_def Let_def b1 bit_length_one by simp
  have f2: "floor_log2 1 10 = - 4"
    unfolding floor_log2_def Let_def b2 bit_length_one by simp
  have f3: "floor_log2 (10 ^ 309) 1 = 1026"
    unfolding floor_log2_def Let_def b3 bit_length_one by simp
  show "py_float ascii_runtime (ustr ''9007199254740993'') = Some (Finite 9007199254740992)"
    unfolding s1 binary64_def f1 Let_def by (simp add: round_half_even_def)
  show "py_float ascii_runtime (ustr ''0.1'') = Some (Finite (3602879701896397 / 2 ^ 55))"
    unfolding s2 binary64_def f2 Let_def by (simp add: round_half_even_def)
  show "py_float ascii_runtime (ustr ''1e309'') = Some (Infinity False)"
    unfolding s3 binary64_def f3 Let_def by (simp add: round_half_even_def)
qed

section \<open>Properties of the field extractor\<close>

subsection \<open>Price\<close>

lemma strip_currency_filter:
  "strip_currency t = filter (\<lambda>c. c \<noteq> POUND \<and> c \<noteq> 36 \<and> c \<noteq> EURO \<and> c \<noteq> 44) t"
proof -
  have d: "ustr ''$'' = [36]" and c: "ustr '','' = [44]"
    by (simp_all add: ustr_def)
  show ?thesis
    unfolding strip_currency_def d c replace_char_filter
    by (simp add: conj_assoc)
qed

text \<open>
  A text made of currency signs, commas and digits: removing the signs and the commas
  leaves the digits.
\<close>

lemma strip_currency_digits:
  assumes "list_all (\<lambda>c. is_ascii_digit c \<or> c = 44 \<or> c = POUND \<or> c = 36 \<or> c = EURO) s"
  shows "strip_currency s = filter is_ascii_digit s"
proof -
  have elems: "\<And>c. c \<in> set s \<Longrightarrow> is_ascii_digit c \<or> c = 44 \<or> c = POUND \<or> c = 36 \<or> c = EURO"
    using assms by (simp add: list_all_iff)
  have nd: "\<not> is_ascii_digit POUND" "\<not> is_ascii_digit EURO" "\<not> is_ascii_digit 36"
    "\<not> is_ascii_digit 44"
    by (simp_all add: is_ascii_digit_def POUND_def EURO_def)
  have "filter (\<lambda>c. c \<noteq> POUND \<and> c \<noteq> 36 \<and> c \<noteq> EURO \<and> c \<noteq> 44) s = filter is_ascii_digit s"
    by (rule filter_cong) (use elems nd in auto)
  then show ?thesis
    by (simp add: strip_currency_filter)
qed

lemma extract_price_amount_currency:
  "(amount (extract_price rt box p), currency (extract_price rt box p)) =
     (case price_amount box of
        None \<Rightarrow> (amount p, currency p)
      | Some t \<Rightarrow>
          (case py_float rt (strip_currency (strip t)) of
             None \<Rightarrow> (None, currency p)
           | Some v \<Rightarrow> (Some v, ustr ''GBP'')))"
  by (simp add: extract_price_def extract_price_amount_def Let_def split: option.splits)

lemma extract_head_price:
  "price (extract_head src now frag) = price (initial_hotel_data src now)"
  by (simp add: extract_head_def extract_location_def Let_def split: option.splits list.splits)

lemma extract_tail_price:
  "price (extract_tail rt frag h) =
     (case main_price_box frag of None \<Rightarrow> price h | Some box \<Rightarrow> extract_price rt box (price h))"
  by (simp add: extract_tail_def Let_def split: option.splits)

lemma extract_hotel_data_price:
  assumes "extract_hotel_data rt src now frag = Some h"
  shows "price h =
           (case main_price_box frag of
              None \<Rightarrow> price (initial_hotel_data src now)
            | Some box \<Rightarrow> extract_price rt box (price (initial_hotel_data src now)))"
  using assms
  by (auto simp: extract_hotel_data_def Let_def extract_tail_price extract_head_price
           split: option.splits)

lemma initial_price:
  "amount (price (initial_hotel_data src now)) = None"
  "currency (price (initial_hotel_data src now)) = ustr ''USD''"
  by (simp_all add: initial_hotel_data_def)

text \<open>
  C4, as the code has it. The price text is stripped of the blanks around it, every
  pound, dollar and euro sign and every comma is removed, and \<open>float\<close> reads what is
  left, all of it:
  \<^item> when the stripped text is made of currency signs, commas and digits only, with a
    digit among them, the amount is the binary64 number nearest to the number the digits
    write, which is that number when it is below \<open>2 ^ 53\<close>, and the currency is GBP;
  \<^item> whenever \<open>float\<close> accepts what is left, the amount is its result and the currency
    is GBP;
  \<^item> when there is no price box, no price text in it, or \<open>float\<close> refuses what is left,
    as it does for a text with words around the price, the amount stays absent and the
    currency stays USD.
\<close>

theorem price_amount_and_currency:
  assumes "extract_hotel_data rt src now frag = Some h"
  shows "(\<forall>box t.
            main_price_box frag = Some box \<and> price_amount box = Some t
            \<and> list_all (\<lambda>c. is_ascii_digit c \<or> c = 44 \<or> c = POUND \<or> c = 36 \<or> c = EURO)
                (strip t)
            \<and> list_ex is_ascii_digit (strip t)
            \<longrightarrow> amount (price h)
                  = Some (binary64 False
                      (decimal_number (map (\<lambda>c. c - 48) (filter is_ascii_digit (strip t)))) 1)
                \<and> (decimal_number (map (\<lambda>c. c - 48) (filter is_ascii_digit (strip t))) < 2 ^ 53
                    \<longrightarrow> amount (price h)
                          = Some (Finite (real (decimal_number
                              (map (\<lambda>c. c - 48) (filter is_ascii_digit (strip t)))))))
                \<and> currency (price h) = ustr ''GBP'')
       \<and> (\<forall>box t v.
            main_price_box frag = Some box \<and> price_amount box = Some t
            \<and> py_float rt (strip_currency (strip t)) = Some v
            \<longrightarrow> amount (price h) = Some v \<and> currency (price h) = ustr ''GBP'')
       \<and> (main_price_box frag = None
            \<longrightarrow> amount (price h) = None \<and> currency (price h) = ustr ''USD'')
       \<and> (\<forall>box. main_price_box frag = Some box \<and> price_amount box = None
            \<longrightarrow> amount (price h) = None \<and> currency (price h) = ustr ''USD'')
       \<and> (\<forall>box t. main_price_box frag = Some box \<and> price_amount box = Some t
              \<and> py_float rt (strip_currency (strip t)) = None
            \<longrightarrow> amount (price h) = None \<and> currency (price h) = ustr ''USD'')"
proof -
  note p = extract_hotel_data_price[OF assms]
  have accepted: "amount (price h) = Some v \<and> currency (price h) = ustr ''GBP''"
    if "main_price_box frag = Some box" and "price_amount box = Some t"
      and "py_float rt (strip_currency (strip t)) = Some v" for box t v
    using that extract_price_amount_currency[of rt box "price (initial_hotel_data src now)"]
    by (simp add: p)
  have found: "amount (price h)
                 = Some (binary64 False
                     (decimal_number (map (\<lambda>c. c - 48) (filter is_ascii_digit (strip t)))) 1)
               \<and> (decimal_number (map (\<lambda>c. c - 48) (filter is_ascii_digit (strip t))) < 2 ^ 53
                   \<longrightarrow> amount (price h)
                         = Some (Finite (real (decimal_number
                             (map (\<lambda>c. c - 48) (filter is_ascii_digit (strip t)))))))
               \<and> currency (price h) = ustr ''GBP''"
    if box: "main_price_box frag = Some box" and t: "price_amount box = Some t"
      and body: "list_all (\<lambda>c. is_ascii_digit c \<or> c = 44 \<or> c = POUND \<or> c = 36 \<or> c = EURO)
                   (strip t)"
      and some: "list_ex is_ascii_digit (strip t)"
    for box t
  proof -
    let ?ds = "filter is_ascii_digit (strip t)"
    let ?n = "decimal_number (map (\<lambda>c. c - 48) ?ds)"
    have ne: "?ds \<noteq> []"
      using some by (auto simp: list_ex_iff filter_empty_conv)
    have "list_all is_ascii_digit ?ds"
      by (simp add: list_all_iff)
    then have "py_float rt (strip_currency (strip t)) = Some (binary64 False ?n 1)"
      using ne by (simp add: strip_currency_digits[OF body] py_float_digits)
    from accepted[OF box t this]
    have a: "amount (price h) = Some (binary64 False ?n 1)"
      and c: "currency (price h) = ustr ''GBP''"
      by simp_all
    have "amount (price h) = Some (Finite (real ?n))" if "?n < 2 ^ 53"
      using a binary64_exact[OF that] by simp
    then show ?thesis
      using a c by blast
  qed
  have absent: "amount (price h) = None \<and> currency (price h) = ustr ''USD''"
    if "main_price_box frag = None"
    using that by (simp add: p initial_price)
  have no_text: "amount (price h) = None \<and> currency (price h) = ustr ''USD''"
    if "main_price_box frag = Some box" and "price_amount box = None" for box
    using that extract_price_amount_currency[of rt box "price (initial_hotel_data src now)"]
    by (simp add: p initial_price)
  have refused: "amount (price h) = None \<and> currency (price h) = ustr ''USD''"
    if "main_price_box frag = Some box" and "price_amount box = Some t"
      and "py_float rt (strip_currency (strip t)) = None" for box t
    using that extract_price_amount_currency[of rt box "price (initial_hotel_data src now)"]
    by (simp add: p initial_price)
  show ?thesis
    using found accepted absent no_text refused by blast
qed

lemma priced_fragment_read:
  "\<exists>h. extract_hotel_data ascii_runtime (ustr ''World'') (ustr ''2025-01-01T00:00:00'')
         (priced_fragment t) = Some h"
  by (simp add: extract_hotel_data_def priced_fragment_def Let_def)

lemma price_texts:
  "strip (POUND # ustr ''1,234'') = POUND # ustr ''1,234''"
  "strip_currency (strip (POUND # ustr ''80 per night'')) = ustr ''80 per night''"
  "strip_currency (strip (ustr ''from '' @ POUND # ustr ''80'')) = ustr ''from 80''"
  "py_float ascii_runtime (ustr ''80 per night'') = None"
  "py_float ascii_runtime (ustr ''from 80'') = None"
  by (simp_all add: text_eval strip_currency_def float_eval)

theorem price_amount_and_currency_witness:
  "price_read (extract_hotel_data ascii_runtime (ustr ''World'') (ustr ''2025-01-01T00:00:00'')
                 (priced_fragment (POUND # ustr ''1,234'')))
     = Some (Some (Finite 1234), ustr ''GBP'')
   \<and> price_read (extract_hotel_data ascii_runtime (ustr ''World'') (ustr ''2025-01-01T00:00:00'')
                 (priced_fragment (POUND # ustr ''80 per night'')))
     = Some (None, ustr ''USD'')"
proof (intro conjI)
  let ?run = "\<lambda>t. extract_hotel_data ascii_runtime (ustr ''World'') (ustr ''2025-01-01T00:00:00'')
                    (priced_fragment t)"
  obtain h1 where h1: "?run (POUND # ustr ''1,234'') = Some h1"
    using priced_fragment_read by blast
  have box: "main_price_box (priced_fragment t)
               = Some \<lparr>price_amount = Some t, provider_src = None,
                        room_type_el = None, cancellation_el = None\<rparr>" for t
    by (simp add: priced_fragment_def)
  let ?t = "POUND # ustr ''1,234''"
  let ?n = "decimal_number (map (\<lambda>c. c - 48) (filter is_ascii_digit (strip ?t)))"
  have pre: "main_price_box (priced_fragment ?t)
               = Some \<lparr>price_amount = Some ?t, provider_src = None,
                        room_type_el = None, cancellation_el = None\<rparr>
             \<and> price_amount \<lparr>price_amount = Some ?t, provider_src = None,
                        room_type_el = None, cancellation_el = None\<rparr> = Some ?t
             \<and> list_all (\<lambda>c. is_ascii_digit c \<or> c = 44 \<or> c = POUND \<or> c = 36 \<or> c = EURO)
                  (strip ?t)
             \<and> list_ex is_ascii_digit (strip ?t)"
    unfolding price_texts(1) by (simp add: box ustr_def is_ascii_digit_def)
  have num: "?n = 1234"
    unfolding price_texts(1)
    by (simp add: ustr_def is_ascii_digit_def decimal_number_def POUND_def)
  have "amount (price h1) = Some (binary64 False ?n 1)
        \<and> (?n < 2 ^ 53 \<longrightarrow> amount (price h1) = Some (Finite (real ?n)))
        \<and> currency (price h1) = ustr ''GBP''"
    using price_amount_and_currency[OF h1] pre by blast
  then have "(1234::nat) < 2 ^ 53 \<longrightarrow> amount (price h1) = Some (Finite (real (1234::nat)))"
    and cur: "currency (price h1) = ustr ''GBP''"
    unfolding num by blast+
  then have "amount (price h1) = Some (Finite 1234) \<and> currency (price h1) = ustr ''GBP''"
    by simp
  then show "price_read (?run (POUND # ustr ''1,234'')) = Some (Some (Finite 1234), ustr ''GBP'')"
    by (simp add: h1 price_read_def)
  obtain h2 where h2: "?run (POUND # ustr ''80 per night'') = Some h2"
    using priced_fragment_read by blast
  have "amount (price h2) = None \<and> currency (price h2) = ustr ''USD''"
    using price_amount_and_currency[OF h2]
    by (simp add: box price_texts)
  then show "price_read (?run (POUND # ustr ''80 per night'')) = Some (None, ustr ''USD'')"
    by (simp add: h2 price_read_def)
qed

text \<open>
  The claim as stated fails for a price text that has words before the sign: \<open>from\<close>, a blank, a pound sign and \<open>80\<close>
  holds a pound sign followed by digits, and the record has no amount and the currency
  USD, because \<open>float\<close> is given \<open>from 80\<close>.
\<close>

theorem price_among_words_not_read:
  "price_read (extract_hotel_data ascii_runtime (ustr ''World'') (ustr ''2025-01-01T00:00:00'')
                 (priced_fragment (ustr ''from '' @ POUND # ustr ''80'')))
     = Some (None, ustr ''USD'')"
proof -
  obtain h where h: "extract_hotel_data ascii_runtime (ustr ''World'')
                       (ustr ''2025-01-01T00:00:00'')
                       (priced_fragment (ustr ''from '' @ POUND # ustr ''80'')) = Some h"
    using priced_fragment_read by blast
  have "price h = extract_price ascii_runtime
                    \<lparr>price_amount = Some (ustr ''from '' @ POUND # ustr ''80''),
                     provider_src = None, room_type_el = None, cancellation_el = None\<rparr>
                    (price (initial_hotel_data (ustr ''World'') (ustr ''2025-01-01T00:00:00'')))"
    using extract_hotel_data_price[OF h] by (simp add: priced_fragment_def)
  then have "amount (price h) = None \<and> currency (price h) = ustr ''USD''"
    using extract_price_amount_currency[of ascii_runtime
        "\<lparr>price_amount = Some (ustr ''from '' @ POUND # ustr ''80''),
          provider_src = None, room_type_el = None, cancellation_el = None\<rparr>"
        "price (initial_hotel_data (ustr ''World'') (ustr ''2025-01-01T00:00:00''))"]
    by (simp add: price_texts initial_price)
  then show ?thesis
    by (simp add: h price_read_def)
qed

subsection \<open>Location\<close>

lemma extract_hotel_data_location:
  assumes "extract_hotel_data rt src now frag = Some h"
  shows "(location h, country h) =
           (case location_el frag of
              None \<Rightarrow> ([], [])
            | Some raw \<Rightarrow>
                (case location_parts (strip raw) of
                   [] \<Rightarrow> ([], [])
                 | p0 # rest \<Rightarrow>
                     (rstrip_chars (ustr '','') p0, case rest of [] \<Rightarrow> [] | p1 # _ \<Rightarrow> p1)))"
  using assms
  by (auto simp: extract_hotel_data_def extract_head_def extract_tail_def extract_location_def
        initial_hotel_data_def Let_def split: option.splits list.splits)

text \<open>
  C5. A location text whose city repeats the property-type prefix: the source removes the
  prefix with \<open>location.replace(prefix, "")\<close>, which deletes every occurrence, so the
  location of the record is not the city of the text.
\<close>

theorem location_prefix_repeated:
  "map_option (\<lambda>h. (location h, country h))
     (extract_hotel_data rt src now
        \<lparr>name_el = Some (ustr ''Park Inn''),
         location_el = Some (ustr ''Hotel in Grand Hotel in the Park'' @ NEWLINE # ustr ''UK''),
         star_elements = 3, circle_rating = None, rating_text_el = None,
         main_price_box = None, tab_height = None\<rparr>)
   = Some (ustr ''Grand  the Park'', ustr ''UK'')"
proof -
  let ?raw = "ustr ''Hotel in Grand Hotel in the Park'' @ NEWLINE # ustr ''UK''"
  let ?rest = "ustr ''Grand  the Park'' @ NEWLINE # ustr ''UK''"
  let ?frag = "\<lparr>name_el = Some (ustr ''Park Inn''), location_el = Some ?raw,
         star_elements = 3, circle_rating = None, rating_text_el = None,
         main_price_box = None, tab_height = None\<rparr>"
  have s0: "strip ?raw = ?raw"
    by (simp add: text_eval)
  have s1: "remove_prefix ?raw prefixes_to_remove = ?rest"
    by (simp add: text_eval prefixes_to_remove_def)
  have s2: "strip (first_piece (split ?rest (ustr ''Show on Map''))) = ?rest"
    by (simp add: text_eval)
  have s3: "split ?rest [NEWLINE] = [ustr ''Grand  the Park'', ustr ''UK'']"
    by (simp add: text_eval)
  have s4: "filter (\<lambda>part. part \<noteq> []) (map strip [ustr ''Grand  the Park'', ustr ''UK''])
              = [ustr ''Grand  the Park'', ustr ''UK'']"
    by (simp add: text_eval)
  have parts: "location_parts (strip ?raw) = [ustr ''Grand  the Park'', ustr ''UK'']"
    unfolding s0 location_parts_def Let_def s1 s2 s3 s4 by (rule refl)
  have s5: "rstrip_chars (ustr '','') (ustr ''Grand  the Park'') = ustr ''Grand  the Park''"
    by (simp add: text_eval)
  obtain h where h: "extract_hotel_data rt src now ?frag = Some h"
    by (simp add: extract_hotel_data_def Let_def)
  have "(location h, country h) = (ustr ''Grand  the Park'', ustr ''UK'')"
    using extract_hotel_data_location[OF h] by (simp add: parts s5)
  then show ?thesis
    by (simp add: h)
qed

subsection \<open>Rating score\<close>

text \<open>
  The record is lost exactly when there is a rating-score element whose text \<open>float\<close>
  refuses; no other field can make the function return \<open>None\<close>.
\<close>

lemma extract_hotel_data_None_iff:
  "extract_hotel_data rt src now frag = None
     \<longleftrightarrow> (\<exists>t. circle_rating frag = Some t \<and> py_float rt (strip t) = None)"
  by (auto simp: extract_hotel_data_def Let_def split: option.splits)

text \<open>
  C1. A listing with every element present and a rating-score text that is not a number:
  the conversion of line 159 is not guarded, and the function returns \<open>None\<close> instead of a
  record with the rating score left absent.
\<close>

theorem rating_score_not_a_number:
  "extract_hotel_data rt src now
     \<lparr>name_el = Some (ustr ''Court Hotel''),
      location_el = Some (ustr ''Hotel in Lagos'' @ NEWLINE # ustr ''Portugal''),
      star_elements = 4, circle_rating = Some (ustr ''N/A''),
      rating_text_el = Some (ustr ''Very good''),
      main_price_box = Some \<lparr>price_amount = Some (POUND # ustr ''120''),
        provider_src = None, room_type_el = None, cancellation_el = None\<rparr>,
      tab_height = None\<rparr>
   = None"
proof -
  have "py_float rt (strip (ustr ''N/A'')) = None"
    by (simp add: text_eval float_eval)
  then show ?thesis
    by (simp add: extract_hotel_data_None_iff)
qed

section \<open>Properties of the page walker\<close>

subsection \<open>The requests of a walk\<close>

lemma goto_pages_append: "goto_pages (a @ b) = goto_pages a @ goto_pages b"
  by (induction a rule: goto_pages.induct) auto

lemma click_pages_append: "click_pages (a @ b) = click_pages a @ click_pages b"
  by (induction a rule: click_pages.induct) auto

lemma write_file_events: "events (snd (write_file disk f c w)) = events w"
  by (simp add: write_file_def split: write_result.splits)

lemma write_file_events': "write_file disk f c w = (b, w1) \<Longrightarrow> events w1 = events w"
  using write_file_events[of disk f c w] by simp

lemma save_checkpoint_events: "events (save_checkpoint disk d n w) = events w"
  by (auto simp: save_checkpoint_def log_add_def split: prod.splits bool.splits
      dest!: write_file_events')

lemma scraping_failed_events: "events (wld (scraping_failed disk k)) = events (wld k)"
  by (auto simp: scraping_failed_def log_add_def save_checkpoint_events
      split: prod.splits bool.splits dest!: write_file_events')

lemma scraping_failed_current_page: "current_page (scraping_failed disk k) = current_page k"
  by (auto simp: scraping_failed_def split: prod.splits bool.splits)

text \<open>
  The loop from page \<open>current_page k\<close> on: it requests the pages from there up to the page
  it ends on, one after the other, it never goes beyond the total, and every click asks
  for a page within the total.
\<close>

lemma scrape_loop_trace:
  assumes "1 \<le> current_page k"
  shows "current_page k \<le> current_page (scrape_loop rt st disk k)
       \<and> current_page (scrape_loop rt st disk k)
            \<le> max (current_page k)
                 (if current_page k = 1 then get_total_pages rt (page_links st) else total_pages k)
       \<and> goto_pages (events (wld (scrape_loop rt st disk k)))
            = goto_pages (events (wld k))
                @ [current_page k ..< Suc (current_page (scrape_loop rt st disk k))]
       \<and> (\<exists>cs. click_pages (events (wld (scrape_loop rt st disk k)))
                  = click_pages (events (wld k)) @ cs
               \<and> list_all (\<lambda>n. n \<le> (if current_page k = 1 then get_total_pages rt (page_links st)
                                       else total_pages k)) cs)"
  using assms
proof (induction rt st disk k rule: scrape_loop.induct)
  case (1 rt st disk k)
  let ?cur = "current_page k"
  let ?T = "if ?cur = 1 then get_total_pages rt (page_links st) else total_pages k"
  let ?w1 = "event_add (Goto ?cur) (wld k)"
  let ?all = "all_hotels_data k
                @ extract_page rt (ustr ''World'') (clock st ?cur) ?cur 1 (hotel_elements st ?cur)"
  let ?w2 = "save_checkpoint disk ?all ?cur ?w1"
  have ev2: "events ?w2 = events (wld k) @ [Goto ?cur]"
    by (simp add: save_checkpoint_events event_add_def)
  show ?case
  proof (cases "goto_ok st ?cur")
    case False
    then have r: "scrape_loop rt st disk k = scraping_failed disk (k\<lparr>wld := ?w1\<rparr>)"
      by (subst scrape_loop.simps) (simp add: Let_def)
    show ?thesis
      unfolding r
      by (simp add: scraping_failed_events scraping_failed_current_page event_add_def
            goto_pages_append click_pages_append)
  next
    case g: True
    show ?thesis
    proof (cases "hotels_load st ?cur")
      case False
      then have r: "scrape_loop rt st disk k = k\<lparr>total_pages := ?T, wld := ?w1\<rparr>"
        using g by (subst scrape_loop.simps) (simp add: Let_def)
      show ?thesis
        unfolding r by (simp add: event_add_def goto_pages_append click_pages_append)
    next
      case h: True
      show ?thesis
      proof (cases "?T \<le> ?cur")
        case True
        then have r: "scrape_loop rt st disk k
                        = k\<lparr>all_hotels_data := ?all, total_pages := ?T, wld := ?w2\<rparr>"
          using g h by (subst scrape_loop.simps) (simp add: Let_def)
        show ?thesis
          unfolding r
          by (simp add: save_checkpoint_events event_add_def goto_pages_append
                click_pages_append)
      next
        case lt: False
        obtain b w3 where nav: "navigate_to_next_page st ?cur ?w2 = (b, w3)"
          by (cases "navigate_to_next_page st ?cur ?w2")
        have ev3: "events w3 = events ?w2 \<or> events w3 = events ?w2 @ [ClickNext (?cur + 1)]"
          using nav by (auto simp: navigate_to_next_page_def event_add_def split: nav_result.splits)
        have ev3T: "b \<Longrightarrow> events w3 = events ?w2 @ [ClickNext (?cur + 1)]"
          using nav by (auto simp: navigate_to_next_page_def event_add_def split: nav_result.splits)
        show ?thesis
        proof (cases b)
          case False
          then have r: "scrape_loop rt st disk k
                          = k\<lparr>all_hotels_data := ?all, total_pages := ?T, wld := w3\<rparr>"
            using g h lt nav by (subst scrape_loop.simps) (simp add: Let_def)
          have "?cur + 1 \<le> ?T" using lt by simp
          then show ?thesis
            unfolding r using ev3
            by (auto simp: save_checkpoint_events event_add_def goto_pages_append
                  click_pages_append)
        next
          case True
          let ?k2 = "k\<lparr>all_hotels_data := ?all, current_page := ?cur + 1,
                        total_pages := ?T, wld := w3\<rparr>"
          have r: "scrape_loop rt st disk k = scrape_loop rt st disk ?k2"
            using g h lt nav True by (subst scrape_loop.simps) (simp add: Let_def)
          have IH: "current_page ?k2 \<le> current_page (scrape_loop rt st disk ?k2)
       \<and> current_page (scrape_loop rt st disk ?k2)
            \<le> max (current_page ?k2)
                 (if current_page ?k2 = 1 then get_total_pages rt (page_links st) else total_pages ?k2)
       \<and> goto_pages (events (wld (scrape_loop rt st disk ?k2)))
            = goto_pages (events (wld ?k2))
                @ [current_page ?k2 ..< Suc (current_page (scrape_loop rt st disk ?k2))]
       \<and> (\<exists>cs. click_pages (events (wld (scrape_loop rt st disk ?k2)))
                  = click_pages (events (wld ?k2)) @ cs
               \<and> list_all (\<lambda>n. n \<le> (if current_page ?k2 = 1 then get_total_pages rt (page_links st)
                                       else total_pages ?k2)) cs)"
            by (rule "1.IH"[of "?cur" "?w1" "?T"
                  "extract_page rt (ustr ''World'') (clock st ?cur) ?cur 1 (hotel_elements st ?cur)"
                  "?all" "?w2" b w3])
               (use g h lt nav True in auto)
          have c2: "current_page ?k2 = ?cur + 1" "total_pages ?k2 = ?T" "wld ?k2 = w3"
            by simp_all
          have ne1: "?cur + 1 \<noteq> 1" using "1.prems" by simp
          have e3: "events w3 = events (wld k) @ [Goto ?cur, ClickNext (?cur + 1)]"
            using ev3T[OF True] ev2 by simp
          from IH obtain cs where
            a: "?cur + 1 \<le> current_page (scrape_loop rt st disk ?k2)"
            and b: "current_page (scrape_loop rt st disk ?k2) \<le> max (?cur + 1) ?T"
            and c: "goto_pages (events (wld (scrape_loop rt st disk ?k2)))
                      = goto_pages (events w3)
                          @ [?cur + 1 ..< Suc (current_page (scrape_loop rt st disk ?k2))]"
            and d: "click_pages (events (wld (scrape_loop rt st disk ?k2)))
                      = click_pages (events w3) @ cs"
            and e: "list_all (\<lambda>n. n \<le> ?T) cs"
            unfolding c2 using ne1 by auto
          have up: "[?cur ..< Suc (current_page (scrape_loop rt st disk ?k2))]
                      = ?cur # [?cur + 1 ..< Suc (current_page (scrape_loop rt st disk ?k2))]"
            using a by (simp add: upt_conv_Cons)
          have le: "?cur + 1 \<le> ?T" using lt by simp
          show ?thesis
            unfolding r using a b c d e le up
            by (auto simp: e3 goto_pages_append click_pages_append max_def
                intro!: exI[of _ "(?cur + 1) # cs"])
        qed
      qed
    qed
  qed
qed

text \<open>When every page up to the total loads and every navigation succeeds, the loop ends on
  the last page.\<close>

lemma scrape_loop_complete:
  assumes "1 \<le> current_page k"
    and "\<forall>j. current_page k \<le> j
              \<and> j \<le> (if current_page k = 1 then get_total_pages rt (page_links st)
                        else total_pages k)
            \<longrightarrow> goto_ok st j \<and> hotels_load st j"
    and "\<forall>j. current_page k \<le> j
              \<and> j < (if current_page k = 1 then get_total_pages rt (page_links st)
                        else total_pages k)
            \<longrightarrow> next_page st j = Navigated"
  shows "current_page (scrape_loop rt st disk k)
           = max (current_page k)
               (if current_page k = 1 then get_total_pages rt (page_links st) else total_pages k)"
  using assms
proof (induction rt st disk k rule: scrape_loop.induct)
  case (1 rt st disk k)
  let ?cur = "current_page k"
  let ?T = "if ?cur = 1 then get_total_pages rt (page_links st) else total_pages k"
  let ?w1 = "event_add (Goto ?cur) (wld k)"
  let ?all = "all_hotels_data k
                @ extract_page rt (ustr ''World'') (clock st ?cur) ?cur 1 (hotel_elements st ?cur)"
  let ?w2 = "save_checkpoint disk ?all ?cur ?w1"
  from scrape_loop_trace[OF "1.prems"(1), of rt st disk]
  have bounds: "?cur \<le> current_page (scrape_loop rt st disk k)"
    "current_page (scrape_loop rt st disk k) \<le> max ?cur ?T"
    by blast+
  show ?case
  proof (cases "?T \<le> ?cur")
    case True
    then show ?thesis using bounds by (simp add: max_def split: if_splits)
  next
    case lt: False
    then have g: "goto_ok st ?cur" and h: "hotels_load st ?cur"
      and n: "next_page st ?cur = Navigated"
      using "1.prems"(2,3) by auto
    let ?w3 = "event_add (ClickNext (?cur + 1)) ?w2"
    have nav: "navigate_to_next_page st ?cur ?w2 = (True, ?w3)"
      by (simp add: navigate_to_next_page_def n)
    let ?k2 = "k\<lparr>all_hotels_data := ?all, current_page := ?cur + 1,
                  total_pages := ?T, wld := ?w3\<rparr>"
    have r: "scrape_loop rt st disk k = scrape_loop rt st disk ?k2"
      using g h lt nav by (subst scrape_loop.simps) (simp add: Let_def)
    have ne1: "?cur + 1 \<noteq> 1" using "1.prems"(1) by simp
    have IH: "current_page (scrape_loop rt st disk ?k2)
                = max (current_page ?k2)
                    (if current_page ?k2 = 1 then get_total_pages rt (page_links st)
                     else total_pages ?k2)"
      by (rule "1.IH"[of "?cur" "?w1" "?T"
            "extract_page rt (ustr ''World'') (clock st ?cur) ?cur 1 (hotel_elements st ?cur)"
            "?all" "?w2" True "?w3"])
         (use g h lt nav ne1 "1.prems" in auto)
    show ?thesis
      unfolding r IH using lt ne1 by (simp add: max_def)
  qed
qed

subsection \<open>The total number of pages\<close>

lemma page_numbers_no_numeric:
  "list_all (\<lambda>t. case t of None \<Rightarrow> True | Some s \<Rightarrow> \<not> isdigit rt s) links
     \<Longrightarrow> page_numbers rt links = Some []"
  by (induction links) (auto split: option.splits)

lemma get_total_pages_no_numeric:
  "list_all (\<lambda>t. case t of None \<Rightarrow> True | Some s \<Rightarrow> \<not> isdigit rt s) links
     \<Longrightarrow> get_total_pages rt links = 1"
  by (simp add: get_total_pages_def page_numbers_no_numeric)

lemma fold_max_Max: "fold max ns (m::nat) = Max (insert m (set ns))"
proof (induction ns arbitrary: m)
  case Nil
  show ?case by simp
next
  case (Cons a ns)
  have "Max (insert (max a m) (set ns)) = Max (insert m (insert a (set ns)))"
    by (cases "a \<le> m"; cases "set ns = {}") (auto simp: max_def Max_insert insert_commute intro: antisym)
  then show ?case
    by (simp add: Cons)
qed

text \<open>When no conversion fails and there is a numeric link, the total is the largest number.\<close>

lemma get_total_pages_Max:
  assumes "page_numbers rt links = Some ns" and "ns \<noteq> []"
  shows "get_total_pages rt links = Max (set ns)"
proof -
  have "links \<noteq> []" using assms by auto
  moreover have "Max (insert 0 (set ns)) = Max (set ns)"
    using assms(2) by (simp add: Max_insert max_def)
  ultimately show ?thesis
    using assms by (simp add: get_total_pages_def fold_max_Max)
qed

subsection \<open>The walk of scrape_hotels\<close>

lemma get_total_pages_samples:
  "get_total_pages ascii_runtime (page_links site_stuck) = 3"
  "get_total_pages ascii_runtime (page_links site_two_pages) = 2"
  by (simp_all add: site_stuck_def site_two_pages_def get_total_pages_def isdigit_def
        isdigit_char_def is_ascii_digit_def py_int_def decimal_of_def decimal_number_def
        ascii_runtime_def ustr_def)

text \<open>
  C7, as the code has it. With \<open>N\<close> the total read from the first page, the walk requests
  the pages 1, 2, ... up to the page it ends on, which is at most \<open>max 1 N\<close>; every click
  on a next-page control asks for a page within \<open>N\<close>, so that nothing is requested after
  page \<open>N\<close> is completed. The walk ends on page \<open>max 1 N\<close> when every page loads and every
  navigation succeeds; it ends earlier when a page does not load or a navigation fails.
  Without a numeric page link the total is 1.
\<close>

theorem walk_requests_pages:
  "goto_pages (events (wld (scrape_hotels rt st disk w)))
     = goto_pages (events w) @ [1 ..< Suc (current_page (scrape_hotels rt st disk w))]
   \<and> 1 \<le> current_page (scrape_hotels rt st disk w)
   \<and> current_page (scrape_hotels rt st disk w) \<le> max 1 (get_total_pages rt (page_links st))
   \<and> (\<exists>cs. click_pages (events (wld (scrape_hotels rt st disk w))) = click_pages (events w) @ cs
          \<and> list_all (\<lambda>n. n \<le> get_total_pages rt (page_links st)) cs)
   \<and> ((\<forall>j. 1 \<le> j \<and> j \<le> get_total_pages rt (page_links st)
             \<longrightarrow> goto_ok st j \<and> hotels_load st j)
        \<and> (\<forall>j. 1 \<le> j \<and> j < get_total_pages rt (page_links st) \<longrightarrow> next_page st j = Navigated)
       \<longrightarrow> current_page (scrape_hotels rt st disk w) = max 1 (get_total_pages rt (page_links st)))
   \<and> (list_all (\<lambda>t. case t of None \<Rightarrow> True | Some s \<Rightarrow> \<not> isdigit rt s) (page_links st)
       \<longrightarrow> get_total_pages rt (page_links st) = 1)"
proof -
  let ?k0 = "\<lparr>all_hotels_data = [], current_page = 1, total_pages = 0, wld = w, raised = False\<rparr>"
  have one: "1 \<le> current_page ?k0" by simp
  have tr: "current_page ?k0 \<le> current_page (scrape_loop rt st disk ?k0)
       \<and> current_page (scrape_loop rt st disk ?k0)
            \<le> max (current_page ?k0)
                 (if current_page ?k0 = 1 then get_total_pages rt (page_links st) else total_pages ?k0)
       \<and> goto_pages (events (wld (scrape_loop rt st disk ?k0)))
            = goto_pages (events (wld ?k0))
                @ [current_page ?k0 ..< Suc (current_page (scrape_loop rt st disk ?k0))]
       \<and> (\<exists>cs. click_pages (events (wld (scrape_loop rt st disk ?k0)))
                  = click_pages (events (wld ?k0)) @ cs
               \<and> list_all (\<lambda>n. n \<le> (if current_page ?k0 = 1 then get_total_pages rt (page_links st)
                                       else total_pages ?k0)) cs)"
    by (rule scrape_loop_trace[OF one])
  have co: "current_page (scrape_loop rt st disk ?k0) = max 1 (get_total_pages rt (page_links st))"
    if "\<forall>j. 1 \<le> j \<and> j \<le> get_total_pages rt (page_links st) \<longrightarrow> goto_ok st j \<and> hotels_load st j"
      and "\<forall>j. 1 \<le> j \<and> j < get_total_pages rt (page_links st) \<longrightarrow> next_page st j = Navigated"
    using scrape_loop_complete[OF one, of rt st disk] that by simp
  show ?thesis
    unfolding scrape_hotels_def
    using tr co get_total_pages_no_numeric[of rt "page_links st"] by simp
qed

theorem walk_requests_pages_witness:
  "goto_pages (events (wld (scrape_hotels ascii_runtime site_two_pages disk_ok world0))) = [1, 2]
   \<and> click_pages (events (wld (scrape_hotels ascii_runtime site_two_pages disk_ok world0))) = [2]
   \<and> get_total_pages ascii_runtime (page_links site_unnumbered) = 1
   \<and> goto_pages (events (wld (scrape_hotels ascii_runtime site_unnumbered disk_ok world0))) = [1]"
proof -
  let ?r = "scrape_hotels ascii_runtime site_two_pages disk_ok world0"
  note t = walk_requests_pages[of ascii_runtime site_two_pages disk_ok world0]
  have N: "get_total_pages ascii_runtime (page_links site_two_pages) = 2"
    by (rule get_total_pages_samples)
  have ok: "(\<forall>j. 1 \<le> j \<and> j \<le> (2::nat) \<longrightarrow> goto_ok site_two_pages j \<and> hotels_load site_two_pages j)
        \<and> (\<forall>j. 1 \<le> j \<and> j < (2::nat) \<longrightarrow> next_page site_two_pages j = Navigated)"
    by (simp add: site_two_pages_def)
  have cur: "current_page ?r = 2"
    using t ok unfolding N by simp
  have up: "[1 ..< Suc 2] = [1, 2::nat]"
    by (simp add: upt_conv_Cons)
  have g: "goto_pages (events (wld ?r)) = [1, 2]"
    using t unfolding cur up by (simp add: world0_def)
  have sel: "goto_ok site_two_pages n" "hotels_load site_two_pages n"
    "next_page site_two_pages n = Navigated" for n
    by (simp_all add: site_two_pages_def)
  have ev: "events (wld ?r) = [Goto 1, ClickNext 2, Goto 2]"
    by (simp add: scrape_hotels_def scrape_loop.simps[of _ site_two_pages] N sel Let_def
          navigate_to_next_page_def event_add_def save_checkpoint_events world0_def)
  let ?u = "scrape_hotels ascii_runtime site_unnumbered disk_ok world0"
  note u = walk_requests_pages[of ascii_runtime site_unnumbered disk_ok world0]
  have nn: "list_all (\<lambda>t. case t of None \<Rightarrow> True | Some s \<Rightarrow> \<not> isdigit ascii_runtime s)
              (page_links site_unnumbered)"
    by (simp add: site_unnumbered_def isdigit_def isdigit_char_def is_ascii_digit_def ustr_def)
  have N1: "get_total_pages ascii_runtime (page_links site_unnumbered) = 1"
    using u nn by blast
  have cur1: "current_page ?u = 1"
    using u unfolding N1 by simp
  have g1: "goto_pages (events (wld ?u)) = [1]"
    using u unfolding cur1 by (simp add: world0_def)
  show ?thesis
    using g N1 g1 by (simp add: ev)
qed

text \<open>
  The claim as stated fails on a site whose first page shows the page links 1, 2 and 3 and
  has no control for page 2: the total is 3 and the walk requests page 1 only.
\<close>

theorem walk_stops_early:
  "get_total_pages ascii_runtime (page_links site_stuck) = 3
   \<and> goto_pages (events (wld (scrape_hotels ascii_runtime site_stuck disk_ok world0))) = [1]
   \<and> goto_pages (events (wld (scrape_hotels ascii_runtime site_stuck disk_ok world0))) \<noteq> [1, 2, 3]"
proof -
  have N: "get_total_pages ascii_runtime (page_links site_stuck) = 3"
    by (rule get_total_pages_samples)
  have sel: "goto_ok site_stuck n" "hotels_load site_stuck n" "next_page site_stuck n = NoButton"
    for n
    by (simp_all add: site_stuck_def)
  have ev: "events (wld (scrape_hotels ascii_runtime site_stuck disk_ok world0)) = [Goto 1]"
    by (simp add: scrape_hotels_def scrape_loop.simps[of _ site_stuck] N sel Let_def
          navigate_to_next_page_def event_add_def save_checkpoint_events world0_def)
  show ?thesis
    by (simp add: N ev)
qed

section \<open>Properties of the checkpoint writer\<close>

subsection \<open>One checkpoint\<close>







subsection \<open>The walk does not depend on the disk\<close>




subsection \<open>The files after the walk\<close>




subsection \<open>The checkpoints of a walk\<close>




subsection \<open>The checkpoints of the country sweep\<close>




section \<open>Properties of the geocoder\<close>

subsection \<open>The cache\<close>

lemma geocode_location_hit:
  assumes "loc \<noteq> []" and "cache g (cache_key loc c) = Some v"
  shows "geocode_location rt api save_ok loc c g = (Some v, g)"
  using assms by (simp add: geocode_location_def)

text \<open>A resolution that returns a result leaves it in the cache, after at most one request.\<close>

lemma geocode_location_some:
  assumes "geocode_location rt api save_ok loc c g = (Some v, g')"
  shows "loc \<noteq> [] \<and> cache g' (cache_key loc c) = Some v
       \<and> length (requests g') \<le> length (requests g) + 1"
  using assms
  by (auto simp: geocode_location_def Let_def
      split: if_splits option.splits api_response.splits)

text \<open>A resolution that returns nothing for a location has sent a request and cached nothing.\<close>

lemma geocode_location_none:
  assumes "geocode_location rt api save_ok loc c g = (None, g')" and "loc \<noteq> []"
  shows "g' = g\<lparr>requests := requests g @ [search_query loc c]\<rparr>
       \<and> cache g (cache_key loc c) = None"
  using assms
  by (auto simp: geocode_location_def Let_def
      split: if_splits option.splits api_response.splits)

text \<open>
  C6, as the code has it. For two resolutions of the same pair in a row: when the first
  returns a result, the second returns the same result from the cache without a request,
  and at most one request is made in all. When the first returns nothing for a non-empty
  location (the service failed or found nothing), nothing is cached and the second
  resolution sends the request again. For an empty location no request is made.
\<close>

theorem geocode_twice:
  assumes "geocode_location rt api save_ok loc c g = (r1, g1)"
    and "geocode_location rt api' save_ok' loc c g1 = (r2, g2)"
  shows "(r1 \<noteq> None \<longrightarrow> r2 = r1 \<and> g2 = g1 \<and> length (requests g2) \<le> length (requests g) + 1)
       \<and> (r1 = None \<and> loc \<noteq> []
            \<longrightarrow> requests g2 = requests g @ [search_query loc c, search_query loc c])
       \<and> (loc = [] \<longrightarrow> r1 = None \<and> r2 = None \<and> g2 = g)"
proof -
  have c1: "r1 \<noteq> None \<longrightarrow> r2 = r1 \<and> g2 = g1 \<and> length (requests g2) \<le> length (requests g) + 1"
  proof
    assume "r1 \<noteq> None"
    then obtain v where v: "r1 = Some v" by auto
    from geocode_location_some[OF assms(1)[unfolded v]]
    have ne: "loc \<noteq> []" and hit: "cache g1 (cache_key loc c) = Some v"
      and le: "length (requests g1) \<le> length (requests g) + 1"
      by simp_all
    from geocode_location_hit[OF ne hit, of rt api' save_ok'] assms(2)
    have "r2 = Some v" "g2 = g1" by simp_all
    then show "r2 = r1 \<and> g2 = g1 \<and> length (requests g2) \<le> length (requests g) + 1"
      using v le by simp
  qed
  have c2: "r1 = None \<and> loc \<noteq> []
            \<longrightarrow> requests g2 = requests g @ [search_query loc c, search_query loc c]"
  proof
    assume a: "r1 = None \<and> loc \<noteq> []"
    then have ne: "loc \<noteq> []" and n: "geocode_location rt api save_ok loc c g = (None, g1)"
      using assms(1) by simp_all
    from geocode_location_none[OF n ne]
    have g1: "g1 = g\<lparr>requests := requests g @ [search_query loc c]\<rparr>"
      and miss: "cache g (cache_key loc c) = None"
      by simp_all
    have miss1: "cache g1 (cache_key loc c) = None"
      using miss by (simp add: g1)
    have "requests g2 = requests g1 @ [search_query loc c]"
      using assms(2) ne miss1
      by (auto simp: geocode_location_def Let_def split: option.splits api_response.splits)
    then show "requests g2 = requests g @ [search_query loc c, search_query loc c]"
      by (simp add: g1)
  qed
  have c3: "loc = [] \<longrightarrow> r1 = None \<and> r2 = None \<and> g2 = g"
    using assms by (auto simp: geocode_location_def)
  show ?thesis
    by (rule conjI[OF c1 conjI[OF c2 c3]])
qed

lemma paris_key: "cache_key (ustr ''Paris'') (Some (ustr ''France'')) = ustr ''Paris, France''"
  by (simp add: cache_key_def text_eval)

lemma paris_floats:
  "py_float ascii_runtime (ustr ''48.85'') = Some (binary64 False 4885 100)"
  "py_float ascii_runtime (ustr ''2.35'') = Some (binary64 False 235 100)"
  by (simp_all add: text_eval float_eval)

lemma paris_first:
  "geocode_location ascii_runtime api_paris save_always (ustr ''Paris'') (Some (ustr ''France''))
     geocoder0
   = (Some \<lparr>lat = binary64 False 4885 100, lon = binary64 False 235 100, country_code = JStr [],
            formatted_address = JStr (ustr ''Paris, France'')\<rparr>,
      \<lparr>cache = (\<lambda>k. None)(ustr ''Paris, France'' \<mapsto>
                  \<lparr>lat = binary64 False 4885 100, lon = binary64 False 235 100, country_code = JStr [],
                   formatted_address = JStr (ustr ''Paris, France'')\<rparr>),
       requests = [ustr ''Paris, France''],
       saved = Some ((\<lambda>k. None)(ustr ''Paris, France'' \<mapsto>
                  \<lparr>lat = binary64 False 4885 100, lon = binary64 False 235 100, country_code = JStr [],
                   formatted_address = JStr (ustr ''Paris, France'')\<rparr>)),
       slept = 1\<rparr>)"
proof -
  have k: "ustr ''lat'' \<noteq> ustr ''lon''" "ustr ''lat'' \<noteq> ustr ''display_name''"
    "ustr ''lon'' \<noteq> ustr ''display_name''" "ustr ''lon'' \<noteq> ustr ''lat''"
    "ustr ''address'' \<noteq> ustr ''lat''" "ustr ''address'' \<noteq> ustr ''lon''"
    "ustr ''address'' \<noteq> ustr ''display_name''" "ustr ''display_name'' \<noteq> ustr ''lat''"
    "ustr ''display_name'' \<noteq> ustr ''lon''" "ustr ''Paris'' \<noteq> []"
    by (simp_all add: ustr_def)
  have q: "search_query (ustr ''Paris'') (Some (ustr ''France'')) = ustr ''Paris, France''"
    by (simp add: search_query_def ustr_def)
  show ?thesis
    by (simp add: geocode_location_def paris_key q api_paris_def first_result_def
          float_of_json_def paris_floats k geocoder0_def save_always_def Let_def)
qed

theorem geocode_twice_witness:
  "fst (geocode_location ascii_runtime api_paris save_always (ustr ''Paris'') (Some (ustr ''France''))
          (snd (geocode_location ascii_runtime api_paris save_always (ustr ''Paris'')
                  (Some (ustr ''France'')) geocoder0)))
     = fst (geocode_location ascii_runtime api_paris save_always (ustr ''Paris'')
              (Some (ustr ''France'')) geocoder0)
   \<and> requests (snd (geocode_location ascii_runtime api_paris save_always (ustr ''Paris'')
                      (Some (ustr ''France''))
          (snd (geocode_location ascii_runtime api_paris save_always (ustr ''Paris'')
                  (Some (ustr ''France'')) geocoder0))))
     = [ustr ''Paris, France'']
   \<and> requests (snd (geocode_location ascii_runtime api_empty save_always (ustr ''Paris'')
                      (Some (ustr ''France''))
          (snd (geocode_location ascii_runtime api_empty save_always (ustr ''Paris'')
                  (Some (ustr ''France'')) geocoder0))))
     = [ustr ''Paris, France'', ustr ''Paris, France'']
   \<and> snd (geocode_location ascii_runtime api_paris save_always [] None
            (snd (geocode_location ascii_runtime api_paris save_always [] None geocoder0)))
     = geocoder0"
proof -
  let ?one = "\<lambda>api l c g. geocode_location ascii_runtime api save_always l c g"
  let ?P = "ustr ''Paris''" and ?F = "Some (ustr ''France'')"
  have q: "search_query ?P ?F = ustr ''Paris, France''"
    by (simp add: search_query_def ustr_def)
  have ne: "?P \<noteq> []"
    by (simp add: ustr_def)
  note t = geocode_twice[of ascii_runtime _ save_always _ _ _ _ _ _ save_always]
  have a: "fst (?one api_paris ?P ?F geocoder0) \<noteq> None"
    by (simp add: paris_first)
  from t[OF surjective_pairing surjective_pairing, of api_paris ?P ?F geocoder0 api_paris] a
  have e1: "fst (?one api_paris ?P ?F (snd (?one api_paris ?P ?F geocoder0)))
             = fst (?one api_paris ?P ?F geocoder0)"
    and e2: "snd (?one api_paris ?P ?F (snd (?one api_paris ?P ?F geocoder0)))
             = snd (?one api_paris ?P ?F geocoder0)"
    by simp_all
  have b: "fst (?one api_empty ?P ?F geocoder0) = None"
    by (simp add: geocode_location_def ne paris_key api_empty_def first_result_def
          geocoder0_def Let_def)
  from t[OF surjective_pairing surjective_pairing, of api_empty ?P ?F geocoder0 api_empty] b ne
  have e3: "requests (snd (?one api_empty ?P ?F (snd (?one api_empty ?P ?F geocoder0))))
             = requests geocoder0 @ [search_query ?P ?F, search_query ?P ?F]"
    by simp
  from t[OF surjective_pairing surjective_pairing, of api_paris "[]" None geocoder0 api_paris]
  have e4: "snd (?one api_paris [] None (snd (?one api_paris [] None geocoder0))) = geocoder0"
    by simp
  show ?thesis
    unfolding e1 e2 e3 e4 q unfolding paris_first by (simp add: geocoder0_def)
qed

text \<open>
  The claim as stated fails when the service finds nothing: the first resolution caches
  nothing, and the two resolutions of the same pair make two requests.
\<close>

theorem geocode_twice_two_requests:
  "length (requests (snd (geocode_location ascii_runtime api_empty save_always (ustr ''Paris'')
                      (Some (ustr ''France''))
          (snd (geocode_location ascii_runtime api_empty save_always (ustr ''Paris'')
                  (Some (ustr ''France'')) geocoder0))))) = 2"
proof -
  have ne: "ustr ''Paris'' \<noteq> []"
    by (simp add: ustr_def)
  have one: "geocode_location ascii_runtime api_empty save_always (ustr ''Paris'')
               (Some (ustr ''France'')) g
             = (None, g\<lparr>requests := requests g
                          @ [search_query (ustr ''Paris'') (Some (ustr ''France''))]\<rparr>)"
    if "cache g = (\<lambda>k. None)" for g
    by (simp add: geocode_location_def ne that api_empty_def first_result_def Let_def)
  show ?thesis
    by (simp add: one geocoder0_def)
qed

subsection \<open>The country column\<close>

text \<open>
  The first pass, \<open>update_database_geocoding\<close>, keeps every hotel row that has a country:
  the rows stay in place, and a row is changed only when its country is missing.
\<close>

lemma fill_country_keeps:
  "list_all2 country_kept hs
     (fill_country country_name l hs)"
  by (induction hs) (auto simp: fill_country_def country_kept_def)

lemma keeps_trans:
  assumes "list_all2 country_kept xs ys"
    and "list_all2 country_kept ys zs"
  shows "list_all2 country_kept xs zs"
proof -
  have len: "length xs = length ys" "length ys = length zs"
    using assms by (simp_all add: list_all2_lengthD)
  show ?thesis
  proof (rule list_all2_all_nthI)
    show "length xs = length zs" using len by simp
  next
    fix n assume n: "n < length xs"
    from assms(1) n have a: "country_kept (xs ! n) (ys ! n)"
      by (simp add: list_all2_conv_all_nth)
    from assms(2) n len have b: "country_kept (ys ! n) (zs ! n)"
      by (simp add: list_all2_conv_all_nth)
    show "country_kept (xs ! n) (zs ! n)"
      using a b by (auto simp: country_kept_def split: if_splits)
  qed
qed

lemma keeps_refl:
  "list_all2 country_kept hs hs"
  by (simp add: list_all2_same country_kept_def)

lemma store_geocoding_keeps:
  "list_all2 country_kept (rows ht)
     (rows (fst (store_geocoding rtext l geo ht gt)))"
  by (simp add: store_geocoding_def Let_def keeps_refl fill_country_keeps
      split: sum.splits json.splits)

lemma geocode_all_keeps:
  "list_all2 country_kept (rows ht)
     (rows (fst (geocode_all rt api save_ok rtext todo ht gt g)))"
proof (induction todo arbitrary: ht gt g)
  case Nil
  show ?case by (simp add: keeps_refl)
next
  case (Cons lc todo)
  obtain l c where lc: "lc = (l, c)" by (cases lc)
  show ?case
  proof (cases "text_of l")
    case None
    then show ?thesis using Cons.IH[of ht gt g] by (simp add: lc)
  next
    case (Some loc)
    obtain r g' where geo: "geocode_location rt api save_ok loc (text_of c) g = (r, g')"
      by (cases "geocode_location rt api save_ok loc (text_of c) g")
    show ?thesis
    proof (cases r)
      case None
      then show ?thesis using Cons.IH[of ht gt g'] by (simp add: lc Some geo)
    next
      case (Some geod)
      obtain ht' gt' where st: "store_geocoding rtext loc geod ht gt = (ht', gt')"
        by (cases "store_geocoding rtext loc geod ht gt")
      have a: "list_all2 country_kept
                 (rows ht) (rows ht')"
        using store_geocoding_keeps[of ht rtext loc geod gt] by (simp add: st)
      have b: "list_all2 country_kept
                 (rows ht') (rows (fst (geocode_all rt api save_ok rtext todo ht' gt' g')))"
        by (rule Cons.IH)
      show ?thesis
        using keeps_trans[OF a b] by (simp add: lc \<open>text_of l = Some loc\<close> geo Some st)
    qed
  qed
qed

lemma update_database_geocoding_keeps:
  assumes "update_database_geocoding rt api save_ok rtext db g = Some (db', g')"
  shows "\<exists>ht ht'. hotels_tbl db = Some ht \<and> hotels_tbl db' = Some ht'
           \<and> list_all2 country_kept
                (rows ht) (rows ht')"
proof -
  from assms obtain ht gt where t: "hotels_tbl db = Some ht" "geocoding_tbl db = Some gt"
    by (auto simp: update_database_geocoding_def split: option.splits)
  let ?r = "geocode_all rt api save_ok rtext (locations_to_geocode (rows ht) (rows gt)) ht gt g"
  from assms t have "hotels_tbl db' = Some (fst ?r)"
    by (auto simp: update_database_geocoding_def split: prod.splits)
  then show ?thesis
    using t geocode_all_keeps[of ht rt api save_ok rtext _ gt g] by blast
qed

text \<open>
  C2. The second pass, \<open>update_missing_countries\<close>, selects the locations of the hotels
  without a country and then updates every hotel of such a location: its \<open>UPDATE\<close> has no
  condition on the country. With two hotels in Berlin, one without a country and one in
  \<open>Germany\<close>, and the address \<open>Berlin, Deutschland\<close> in the geocoding table, the country
  of the second hotel is overwritten.
\<close>

theorem missing_countries_overwrites:
  "hotel_countries db_berlin = [SText [], SText (ustr ''Germany'')]
   \<and> map_option hotel_countries (update_missing_countries db_berlin)
       = Some [SText (ustr ''Deutschland''), SText (ustr ''Deutschland'')]"
proof -
  define hs where "hs = [berlin_hotel 1 (ustr ''A'') [],
                         berlin_hotel 2 (ustr ''B'') (ustr ''Germany'')]"
  define gs where "gs = [\<lparr>g_id = 1, g_location_string = SText (ustr ''Berlin''),
                        g_latitude = SReal (Finite 52.5), g_longitude = SReal (Finite 13.5),
                        g_country_code = SText (ustr ''de''),
                        g_formatted_address = SText (ustr ''Berlin, Deutschland'')\<rparr>]"
  have db: "db_berlin = \<lparr>hotels_tbl = Some \<lparr>rows = hs, seq = 2\<rparr>,
      prices_tbl = Some empty_table, facilities_tbl = Some empty_table,
      surfaces_tbl = Some empty_table, geocoding_tbl = Some \<lparr>rows = gs, seq = 1\<rparr>\<rparr>"
    by (simp add: db_berlin_def hs_def gs_def)
  have todo: "locations_to_update hs gs
                = [(SText (ustr ''Berlin''), SText (ustr ''Berlin, Deutschland''))]"
    by (simp add: locations_to_update_def missing_country_def berlin_hotel_def ustr_def
          hs_def gs_def)
  have addr: "country_of_address (ustr ''Berlin, Deutschland'') = ustr ''Deutschland''"
    by (simp add: country_of_address_def text_eval)
  have upd: "set_country (ustr ''Deutschland'') (ustr ''Berlin'') hs
               = [(berlin_hotel 1 (ustr ''A'') [])\<lparr>h_country := SText (ustr ''Deutschland'')\<rparr>,
                  (berlin_hotel 2 (ustr ''B'') (ustr ''Germany''))
                    \<lparr>h_country := SText (ustr ''Deutschland'')\<rparr>]"
    by (simp add: set_country_def hs_def berlin_hotel_def)
  have run: "update_missing_countries db_berlin
               = Some (db_berlin\<lparr>hotels_tbl :=
                    Some \<lparr>rows = set_country (ustr ''Deutschland'') (ustr ''Berlin'') hs,
                          seq = 2\<rparr>\<rparr>)"
    unfolding db by (simp add: update_missing_countries_def todo text_of_def addr)
  have before: "hotel_countries db_berlin = [SText [], SText (ustr ''Germany'')]"
    unfolding db by (simp add: hotel_countries_def hs_def berlin_hotel_def)
  show ?thesis
    unfolding run upd before by (simp add: hotel_countries_def)
qed

section \<open>Properties of the consolidator\<close>

subsection \<open>The store after initialize_database\<close>

text \<open>
  C10. \<open>initialize_database\<close>, which the constructor of \<open>TennisHotelsDB\<close> runs, either
  raises because the existing file could not be removed, and then nothing is changed and
  no consolidation follows, or leaves the store with the four tables of the schema, all
  empty, and without the geocoding table, whatever the file held before.
\<close>

theorem initialize_database_fresh:
  "(case initialize_database remove_ok f0 of
      (Inr u, f1) \<Rightarrow> f1 = Some fresh_database \<and> (f0 = None \<or> remove_ok)
    | (Inl e, f1) \<Rightarrow> e = OSError \<and> f1 = f0 \<and> f0 \<noteq> None \<and> \<not> remove_ok)
   \<and> row_counts fresh_database = (0, 0, 0, 0)
   \<and> geocoding_tbl fresh_database = None"
  by (cases f0)
     (simp_all add: initialize_database_def delete_database_def setup_database_def
        no_tables_def create_if_not_exists_def fresh_database_def row_counts_def
        table_size_def empty_table_def)

subsection \<open>One record\<close>

text \<open>Whenever \<open>insert_hotel_data\<close> does not return \<open>True\<close>, the database is as before.\<close>

lemma insert_hotel_data_atomic:
  "fst (insert_hotel_data rtext now hotel db) \<noteq> Inr True
     \<Longrightarrow> snd (insert_hotel_data rtext now hotel db) = db"
  by (auto simp: insert_hotel_data_def split: sum.splits)

text \<open>It returns \<open>False\<close> exactly when the inserts fail and the record has a name.\<close>

lemma insert_hotel_data_False_iff:
  "fst (insert_hotel_data rtext now hotel db) = Inr False
     \<longleftrightarrow> (\<exists>e v. insert_rows rtext now hotel db = Inl e \<and> subscript hotel (ustr ''name'') = Inr v)"
  by (auto simp: insert_hotel_data_def split: sum.splits)

lemma ustr_eq_iff: "ustr a = ustr b \<longleftrightarrow> a = b"
  by (simp add: ustr_def inj_map_eq_map inj_on_def)

lemma of_char_small: "(of_char c :: nat) < 256"
proof -
  have "(of_char c :: nat) mod 256 = of_char c" by (rule of_char_mod_256)
  moreover have "(of_char c :: nat) mod 256 < 256" by simp
  ultimately show ?thesis by simp
qed

lemma ustr_encodable: "\<not> list_ex (\<lambda>c. 55296 \<le> c \<and> c \<le> 57343) (ustr s)"
proof -
  have "\<not> (55296 \<le> (of_char c :: nat))" for c :: char
  proof -
    have "(of_char c :: nat) < 256" by (rule of_char_small)
    then show ?thesis by linarith
  qed
  then show ?thesis by (simp add: ustr_def list_ex_iff)
qed

lemma insert_rows_no_name:
  "insert_rows rtext now (JObj [(ustr ''location'', v)]) db = Inl KeyError"
  by (simp add: insert_rows_def subscript_def thenE_def ustr_eq_iff)

lemmas store_eval =
  insert_rows_def subscript_def get_or_def thenE_def bind_def items_def
  insert_or_replace_hotel_def insert_price_def insert_facility_def insert_surface_def
  next_id_def key_conflict_def empty_table_def ustr_eq_iff ustr_encodable Let_def


lemmas file_eval =
  process_json_file_def py_iter_def insert_hotel_data_def file_one_hotel_def
  file_missing_name_def court_hotel_def fresh_database_def row_counts_def table_size_def
  hotel_ids_def price_hotel_ids_def

subsection \<open>A record without a name\<close>

text \<open>
  C9. A record that has no \<open>name\<close> makes the insert of the hotel row fail. The database
  is left unchanged, but \<open>insert_hotel_data\<close> does not return \<open>False\<close>: the handler reads
  \<open>hotel_data['name']\<close> for its message, which raises again, and the exception leaves the
  function. \<open>process_json_file\<close> then gives up the file: it returns 0 and the record
  that follows, which is inserted when it is alone in its file, is never processed.
\<close>

theorem missing_name_stops_the_file:
  "insert_hotel_data rtext now (JObj [(ustr ''location'', JStr (ustr ''Lagos''))]) fresh_database
     = (Inl KeyError, fresh_database)
   \<and> process_json_file rtext clk (Some file_missing_name) fresh_database = (0, fresh_database)
   \<and> fst (process_json_file rtext clk (Some file_one_hotel) fresh_database) = 1
   \<and> row_counts (snd (process_json_file rtext clk (Some file_one_hotel) fresh_database))
       = (1, 1, 1, 1)"
proof -
  have c1: "insert_hotel_data rtext now (JObj [(ustr ''location'', JStr (ustr ''Lagos''))])
              fresh_database = (Inl KeyError, fresh_database)" for now
    by (simp add: insert_hotel_data_def insert_rows_no_name subscript_def ustr_eq_iff)
  have c2: "process_json_file rtext clk (Some file_missing_name) fresh_database
              = (0, fresh_database)"
    by (simp add: process_json_file_def py_iter_def file_missing_name_def c1)
  have c3: "fst (process_json_file rtext clk (Some file_one_hotel) fresh_database) = 1"
    by (simp add: file_eval store_eval)
  have c4: "row_counts (snd (process_json_file rtext clk (Some file_one_hotel) fresh_database))
              = (1, 1, 1, 1)"
    by (simp add: file_eval store_eval)
  show ?thesis by (rule conjI[OF c1 conjI[OF c2 conjI[OF c3 c4]]])
qed

subsection \<open>The same file twice\<close>

text \<open>
  After \<open>INSERT OR REPLACE INTO hotels\<close> no other row of the table has the key of the new
  row: the hotel row is not duplicated.
\<close>

lemma insert_or_replace_hotel_unique:
  assumes "insert_or_replace_hotel rtext ps db = Inr (i, db')"
  shows "\<exists>t r. hotels_tbl db' = Some t \<and> rows t = butlast (rows t) @ [r] \<and> h_id r = i
           \<and> list_all (\<lambda>r'. \<not> key_conflict r r') (butlast (rows t))"
  using assms
  by (auto simp: insert_or_replace_hotel_def Let_def list_all_iff
           split: option.splits list.splits if_splits)

text \<open>
  C3. Processing a file with one record twice: the hotel row is replaced (one row, under
  a new id), but the price, tennis-facility and court-surface rows are inserted again, so
  each of these tables holds two rows, and the first price row still refers to the id of
  the hotel row that was deleted.
\<close>

theorem same_file_twice_duplicates_child_rows:
  "row_counts (snd (process_json_file rtext clk (Some file_one_hotel) fresh_database))
     = (1, 1, 1, 1)
   \<and> row_counts (snd (process_json_file rtext clk' (Some file_one_hotel)
        (snd (process_json_file rtext clk (Some file_one_hotel) fresh_database))))
     = (1, 2, 2, 2)
   \<and> hotel_ids (snd (process_json_file rtext clk' (Some file_one_hotel)
        (snd (process_json_file rtext clk (Some file_one_hotel) fresh_database))))
     = [2]
   \<and> price_hotel_ids (snd (process_json_file rtext clk' (Some file_one_hotel)
        (snd (process_json_file rtext clk (Some file_one_hotel) fresh_database))))
     = [1, 2]"
  by (simp add: file_eval store_eval)

end
